theory Spec2Isabelle
  imports Complex_Main "HOL-Library.Sublist"
begin

section \<open>Python string primitives\<close>

text \<open>
  Python strings are modelled as \<open>string\<close> (a list of characters).  The
  operations below are the ones the metadata generator calls on field names.
\<close>

text \<open>\<^verbatim>\<open>s.replace(c, '')\<close> for a one-character \<open>c\<close>: every occurrence goes.\<close>

definition remove_char :: "char \<Rightarrow> string \<Rightarrow> string" where
  "remove_char c s = filter (\<lambda>x. x \<noteq> c) s"

text \<open>\<^verbatim>\<open>s.replace(a, b)\<close> for one-character \<open>a\<close> and \<open>b\<close>.\<close>

definition replace_char :: "char \<Rightarrow> char \<Rightarrow> string \<Rightarrow> string" where
  "replace_char a b s = map (\<lambda>x. if x = a then b else x) s"

text \<open>
  \<^verbatim>\<open>s.lower()\<close>.  Characters are code points below 256; the letters A to Z are mapped
  to a to z.  Every string the program compares a lowered name with is ASCII, so
  how the accented capitals of Latin-1 are lowered is immaterial to the results.
\<close>

definition lower_char :: "char \<Rightarrow> char" where
  "lower_char c =
     (case map_of (zip ''ABCDEFGHIJKLMNOPQRSTUVWXYZ'' ''abcdefghijklmnopqrstuvwxyz'') c of
        Some l \<Rightarrow> l
      | None \<Rightarrow> c)"

definition py_lower :: "string \<Rightarrow> string" where
  "py_lower s = map lower_char s"

text \<open>\<^verbatim>\<open>p in s\<close> on strings: \<open>p\<close> occurs in \<open>s\<close> as a contiguous block.\<close>

fun py_in :: "string \<Rightarrow> string \<Rightarrow> bool" where
  "py_in p [] = (p = [])"
| "py_in p (c # cs) = (prefix p (c # cs) \<or> py_in p cs)"

text \<open>\<^verbatim>\<open>any(p in s for p in patterns)\<close>.\<close>

definition any_in :: "string list \<Rightarrow> string \<Rightarrow> bool" where
  "any_in patterns s = list_ex (\<lambda>p. py_in p s) patterns"

text \<open>
  \<^verbatim>\<open>s.strip()\<close>: leading and trailing whitespace goes.  The whitespace characters below
  code point 256 are tab, line feed, vertical tab, form feed, carriage return, the four
  separators 0x1C to 0x1F, space, 0x85 and 0xA0.
\<close>

definition py_whitespace :: "char list" where
  "py_whitespace = [CHR 0x09, CHR 0x0A, CHR 0x0B, CHR 0x0C, CHR 0x0D, CHR 0x1C, CHR 0x1D,
                    CHR 0x1E, CHR 0x1F, CHR 0x20, CHR 0x85, CHR 0xA0]"

definition is_space :: "char \<Rightarrow> bool" where
  "is_space c = (c \<in> set py_whitespace)"

definition py_strip :: "string \<Rightarrow> string" where
  "py_strip s = rev (dropWhile is_space (rev (dropWhile is_space s)))"

text \<open>\<^verbatim>\<open>sep.join(parts)\<close>.\<close>

fun join :: "string \<Rightarrow> string list \<Rightarrow> string" where
  "join sep [] = []"
| "join sep [x] = x"
| "join sep (x # y # ys) = x @ sep @ join sep (y # ys)"



section \<open>pandas primitives\<close>

text \<open>
  \<^verbatim>\<open>Series.unique()\<close>: the distinct values in order of first appearance.
\<close>

fun unique :: "'a list \<Rightarrow> 'a list" where
  "unique [] = []"
| "unique (x # xs) = x # unique (filter (\<lambda>y. y \<noteq> x) xs)"

text \<open>
  A data frame is the list of its rows; the index label of a row is its position (the
  frames are built by \<^verbatim>\<open>pd.DataFrame(json.loads(...))\<close>, which gives a range index).
  A selection \<^verbatim>\<open>df[mask]\<close> keeps the labels: it is a list of (label, row) pairs.
\<close>

definition select :: "('r \<Rightarrow> bool) \<Rightarrow> 'r list \<Rightarrow> (nat \<times> 'r) list" where
  "select keep df = filter (\<lambda>(idx, r). keep r) (enumerate 0 df)"

definition subselect :: "('r \<Rightarrow> bool) \<Rightarrow> (nat \<times> 'r) list \<Rightarrow> (nat \<times> 'r) list" where
  "subselect keep sub = filter (\<lambda>(idx, r). keep r) sub"

text \<open>
  The loop \<^verbatim>\<open>for idx in labels: df.at[idx, col] = ...\<close>, with the cell writes of one
  iteration collected in \<open>f\<close>.
\<close>

definition write_rows :: "nat list \<Rightarrow> ('r \<Rightarrow> 'r) \<Rightarrow> 'r list \<Rightarrow> 'r list" where
  "write_rows labels f df = fold (\<lambda>idx d. d[idx := f (d ! idx)]) labels df"

text \<open>
  \<^verbatim>\<open>math.ceil(n / 2)\<close> and \<^verbatim>\<open>math.ceil(math.sqrt(n))\<close> on a non-negative integer,
  computed in integer arithmetic.
\<close>

definition ceil_half :: "nat \<Rightarrow> nat" where
  "ceil_half n = (n + 1) div 2"

definition ceil_sqrt :: "nat \<Rightarrow> nat" where
  "ceil_sqrt n = length (filter (\<lambda>k. k * k < n) [0..<n])"

section \<open>table\_generator.py: sanitize\_field\<close>

definition invalid_chars :: "char list" where
  "invalid_chars = [CHR ''.'', CHR ''+'', CHR ''-'', CHR ''*'', CHR ''/'', CHR ''('', CHR '')'',
                    CHR ''['', CHR '']'', CHR 0x22, CHR ''{'', CHR ''}'', CHR ''_'']"

text \<open>
  The loop \<^verbatim>\<open>for char in invalid_chars: field = field.replace(char, '')\<close>.
\<close>

definition sanitize_field :: "string \<Rightarrow> string" where
  "sanitize_field field = fold remove_char invalid_chars field"

section \<open>table\_generator.py: TableGeneratorAI.validate\_fields\<close>

text \<open>
  A cell of the table sheet, or a column label of a user sheet: a string; a null
  (\<^verbatim>\<open>None\<close> or NaN); another hashable value, a number or a truth value; or an
  unhashable value, a list or a dict of the parsed JSON.
\<close>

datatype table_cell = TStr string | TNull | TScalar | TUnhashable

text \<open>
  The columns of the table sheet that \<^verbatim>\<open>validate_fields\<close> reads and writes.  Which of
  them the frame has is in \<^verbatim>\<open>df.columns\<close>, a parameter of the functions below; a key
  that only some rows of the parsed JSON lack is a null cell.
\<close>

record table_row =
  Table_Name :: table_cell
  Field_T :: table_cell
  Display_Field :: table_cell

text \<open>The exceptions that the body of \<^verbatim>\<open>validate_fields\<close> can raise.\<close>

datatype py_error = AttributeError | KeyError | TypeError

text \<open>
  The line \<^verbatim>\<open>print(f"... Field '{row['Field']}' invalid for {table_name}. Defaulting to
  'Record ID'")\<close>, kept by the two values it interpolates.
\<close>

datatype warning = Invalid_Field table_cell table_cell

text \<open>
  \<^verbatim>\<open>sanitize_field(x)\<close> on a cell: \<^verbatim>\<open>x.replace\<close> exists on a string only.
\<close>

fun sanitize_cell :: "table_cell \<Rightarrow> py_error + string" where
  "sanitize_cell (TStr s) = Inr (sanitize_field s)"
| "sanitize_cell c = Inl AttributeError"

text \<open>The comprehension \<^verbatim>\<open>[sanitize_field(c) for c in columns]\<close>.\<close>

fun sanitize_columns :: "table_cell list \<Rightarrow> py_error + string list" where
  "sanitize_columns [] = Inr []"
| "sanitize_columns (c # columns) =
     (case sanitize_cell c of
        Inl e \<Rightarrow> Inl e
      | Inr s \<Rightarrow> (case sanitize_columns columns of Inl e \<Rightarrow> Inl e | Inr ss \<Rightarrow> Inr (s # ss)))"

text \<open>
  Step 1: the loop over \<^verbatim>\<open>self.user_data_summary.items()\<close> with its assignment
  \<^verbatim>\<open>sanitized_summary[table_name] = ...\<close>.  The summary is the list of its items, sheet
  name and column labels; the dict that is built is a map.
\<close>

fun sanitize_summary ::
  "(string \<rightharpoonup> string list) \<Rightarrow> (string \<times> table_cell list) list
     \<Rightarrow> py_error + (string \<rightharpoonup> string list)" where
  "sanitize_summary sanitized_summary [] = Inr sanitized_summary"
| "sanitize_summary sanitized_summary ((table_name, columns) # rest) =
     (case sanitize_columns columns of
        Inl e \<Rightarrow> Inl e
      | Inr cs \<Rightarrow> sanitize_summary (sanitized_summary(table_name \<mapsto> cs)) rest)"

text \<open>
  \<^verbatim>\<open>sanitized_summary.get(table_name, [])\<close>: the key is hashed first; the keys of the dict
  are strings.
\<close>

fun summary_get :: "(string \<rightharpoonup> string list) \<Rightarrow> table_cell \<Rightarrow> py_error + string list" where
  "summary_get sanitized_summary TUnhashable = Inl TypeError"
| "summary_get sanitized_summary (TStr t) =
     Inr (case sanitized_summary t of None \<Rightarrow> [] | Some cs \<Rightarrow> cs)"
| "summary_get sanitized_summary c = Inr []"

text \<open>
  Step 2, the body of the loop over the rows, statement by statement: the new row and
  what is printed, or the exception.  \<^verbatim>\<open>row["..."]\<close> raises when the frame lacks the
  column.
\<close>

definition validate_row ::
  "string list \<Rightarrow> (string \<rightharpoonup> string list) \<Rightarrow> table_row
     \<Rightarrow> py_error + (table_row \<times> warning list)" where
  "validate_row cols sanitized_summary row =
     (if ''Table Name'' \<notin> set cols then Inl KeyError
      else let table_name = Table_Name row in
        case summary_get sanitized_summary table_name of
          Inl e \<Rightarrow> Inl e
        | Inr valid_columns \<Rightarrow>
            if ''Field'' \<notin> set cols then Inl KeyError
            else case sanitize_cell (Field_T row) of
              Inl e \<Rightarrow> Inl e
            | Inr row_field_clean \<Rightarrow>
                if ''Display Field'' \<notin> set cols then Inl KeyError
                else case sanitize_cell (Display_Field row) of
                  Inl e \<Rightarrow> Inl e
                | Inr row_display_clean \<Rightarrow>
                    let (new_field, printed) =
                          (if row_field_clean \<notin> set valid_columns
                           then (''Record ID'', [Invalid_Field (Field_T row) table_name])
                           else (row_field_clean, []));
                        new_display =
                          (if row_display_clean \<notin> set valid_columns
                              \<and> row_display_clean \<noteq> ''Record ID''
                           then ''Record ID''
                           else row_display_clean)
                    in Inr (row\<lparr>Field_T := TStr new_field, Display_Field := TStr new_display\<rparr>,
                            printed))"

text \<open>The loop over the rows: it stops at the first exception.\<close>

fun validate_rows ::
  "string list \<Rightarrow> (string \<rightharpoonup> string list) \<Rightarrow> table_row list
     \<Rightarrow> py_error + (table_row list \<times> warning list)" where
  "validate_rows cols sanitized_summary [] = Inr ([], [])"
| "validate_rows cols sanitized_summary (row # rest) =
     (case validate_row cols sanitized_summary row of
        Inl e \<Rightarrow> Inl e
      | Inr (row', printed) \<Rightarrow>
          (case validate_rows cols sanitized_summary rest of
             Inl e \<Rightarrow> Inl e
           | Inr (rest', printed') \<Rightarrow> Inr (row' # rest', printed @ printed')))"

definition validate_fields ::
  "string list \<Rightarrow> (string \<times> table_cell list) list \<Rightarrow> table_row list
     \<Rightarrow> py_error + (table_row list \<times> warning list)" where
  "validate_fields cols user_data_summary df =
     (case sanitize_summary Map.empty user_data_summary of
        Inl e \<Rightarrow> Inl e
      | Inr sanitized_summary \<Rightarrow> validate_rows cols sanitized_summary df)"

section \<open>dashboard\_generator.py: the dashboard sheet\<close>

text \<open>
  A cell of the \<^verbatim>\<open>Field\<close> column: a string, a null (\<^verbatim>\<open>None\<close> or NaN), or any other
  value, kept by its \<^verbatim>\<open>str()\<close> form.
\<close>

datatype cell = Str string | Null | NonStr string

text \<open>\<^verbatim>\<open>series.dropna().astype(str)\<close> on a list of cells.\<close>

fun dropna_astype_str :: "cell list \<Rightarrow> string list" where
  "dropna_astype_str [] = []"
| "dropna_astype_str (Str s # cs) = s # dropna_astype_str cs"
| "dropna_astype_str (NonStr s # cs) = s # dropna_astype_str cs"
| "dropna_astype_str (Null # cs) = dropna_astype_str cs"

text \<open>
  The columns of the dashboard sheet that the passes below read or write.  The key
  columns are strings.  The display flags and the colour and font columns, which no
  pass reads and which only get a default when they are missing, are left out.
\<close>

record row =
  Module :: string
  Dashboard :: string
  Element_Id :: string
  Object_Type :: string
  Object_Name :: string
  View_Type :: string
  Field_C :: cell
  PosX :: int
  PosY :: int
  Width :: int
  Height :: int
  PosX_1 :: int
  PosY_1 :: int
  Width_1 :: rat
  Height_1 :: int
  View_Type_Attributes :: string

definition HORIZONTAL_STEP :: int where
  "HORIZONTAL_STEP = 60"

definition VERTICAL_STEP :: int where
  "VERTICAL_STEP = 55"

definition INITIAL_X :: int where
  "INITIAL_X = 3"

definition INITIAL_Y :: int where
  "INITIAL_Y = 5"

definition ID_PATTERN :: "string list" where
  "ID_PATTERN = [''id'', ''code'', ''number'', ''key'']"

definition DATE_PATTERN :: "string list" where
  "DATE_PATTERN = [''date'', ''created'', ''modified'', ''time'']"

subsection \<open>DashboardGeneratorAI.assign\_ids\<close>




subsection \<open>PositionalAligner.initialize\_dataframe\_columns\<close>

text \<open>
  \<open>cols\<close> is \<^verbatim>\<open>df.columns\<close> of the incoming frame: a geometry column that is not
  there is created with its default in every row.
\<close>

definition initialize_dataframe_columns :: "string list \<Rightarrow> row list \<Rightarrow> row list" where
  "initialize_dataframe_columns cols df =
     map (\<lambda>r. r\<lparr>PosX := (if ''PosX'' \<in> set cols then PosX r else 0),
                PosY := (if ''PosY'' \<in> set cols then PosY r else 0),
                Width := (if ''Width'' \<in> set cols then Width r else 6),
                Height := (if ''Height'' \<in> set cols then Height r else 14),
                PosX_1 := (if ''PosX.1'' \<in> set cols then PosX_1 r else INITIAL_X),
                PosY_1 := (if ''PosY.1'' \<in> set cols then PosY_1 r else INITIAL_Y),
                Width_1 := (if ''Width.1'' \<in> set cols then Width_1 r else 50),
                Height_1 := (if ''Height.1'' \<in> set cols then Height_1 r else 50)\<rparr>) df"

subsection \<open>PositionalAligner.position\_dashboard\_panels\_by\_module\<close>

definition panel_size :: "(nat \<times> row) list \<Rightarrow> int \<times> int" where
  "panel_size dashboard_elements =
     (let field_count = length dashboard_elements;
          width = 6;
          width = (if ''Report'' \<in> set (map (Object_Type \<circ> snd) dashboard_elements)
                   then width + 3 else width);
          height = 14;
          height = (if field_count > 8
                    then height + int (ceil_half (field_count - 8)) * 2 else height);
          height = (if ''Report Summary'' \<in> set (map (View_Type \<circ> snd) dashboard_elements)
                    then height + 4 else height)
      in (width, height))"

text \<open>
  One iteration of \<^verbatim>\<open>for dashboard in dashboards\<close>; the loop state is the frame and
  \<^verbatim>\<open>current_x, current_y, max_height_in_row\<close>.
\<close>

definition place_panel ::
  "(nat \<times> row) list \<Rightarrow> string \<Rightarrow> row list \<times> int \<times> int \<times> int \<Rightarrow> row list \<times> int \<times> int \<times> int" where
  "place_panel module_df dashboard st =
     (case st of (df, current_x, current_y, max_height_in_row) \<Rightarrow>
        let dashboard_elements = subselect (\<lambda>r. Dashboard r = dashboard) module_df;
            (width, height) = panel_size dashboard_elements;
            df = write_rows (map fst dashboard_elements)
                   (\<lambda>r. r\<lparr>PosX := current_x, PosY := current_y,
                           Width := width, Height := height\<rparr>) df;
            max_height_in_row = max max_height_in_row height;
            current_x = current_x + width
        in if current_x \<ge> 18
           then (df, 0, current_y + (max_height_in_row + 5), 0)
           else (df, current_x, current_y, max_height_in_row))"

text \<open>One iteration of \<^verbatim>\<open>for module in modules\<close>.\<close>

definition layout_module :: "string \<Rightarrow> row list \<Rightarrow> row list" where
  "layout_module module_name df =
     (let module_df = select (\<lambda>r. Module r = module_name) df;
          dashboards = unique (map (Dashboard \<circ> snd) module_df)
      in fst (fold (place_panel module_df) dashboards (df, 0, 0, 0)))"

definition position_dashboard_panels_by_module :: "string list \<Rightarrow> row list \<Rightarrow> row list" where
  "position_dashboard_panels_by_module modules df = fold layout_module modules df"

subsection \<open>PositionalAligner.position\_dashboard\_fields\<close>

definition column_count :: "nat \<Rightarrow> nat" where
  "column_count field_count = min (max 1 (ceil_sqrt field_count)) 4"

definition normalize :: "string \<Rightarrow> string" where
  "normalize field =
     replace_char CHR ''_'' CHR '' '' (replace_char CHR ''-'' CHR '' '' (py_lower field))"

definition id_patterns :: "string list" where
  "id_patterns = [''id'', ''code'', ''number'', ''key'']"

definition name_patterns :: "string list" where
  "name_patterns = [''name'', ''title'', ''label'']"

definition date_patterns :: "string list" where
  "date_patterns = [''date'', ''created'', ''modified'', ''time'']"

definition status_patterns :: "string list" where
  "status_patterns = [''status'', ''state'', ''condition'', ''phase'']"

definition amount_patterns :: "string list" where
  "amount_patterns = [''amount'', ''price'', ''cost'', ''value'', ''total'']"

definition contact_patterns :: "string list" where
  "contact_patterns = [''email'', ''phone'', ''contact'', ''address'']"

definition priority_map :: "(string list \<times> int) list" where
  "priority_map = [(id_patterns, -10), (name_patterns, -5), (date_patterns, 0),
                   (status_patterns, 5), (amount_patterns, 10), (contact_patterns, 15)]"

text \<open>
  The loop \<^verbatim>\<open>for pattern_list, score in priority_map\<close> with its \<^verbatim>\<open>return score\<close>, and
  the \<^verbatim>\<open>return 20\<close> after it.
\<close>

fun first_score :: "string \<Rightarrow> (string list \<times> int) list \<Rightarrow> int" where
  "first_score field_lower [] = 20"
| "first_score field_lower ((pattern_list, score) # rest) =
     (if any_in pattern_list field_lower then score else first_score field_lower rest)"

fun advanced_field_priority :: "cell \<Rightarrow> int" where
  "advanced_field_priority (Str field) = first_score (normalize field) priority_map"
| "advanced_field_priority c = 100"

text \<open>The sizing of a field whose name is a string: (\<^verbatim>\<open>field_width\<close>, \<^verbatim>\<open>field_height\<close>).\<close>

definition field_size :: "string \<Rightarrow> rat \<times> int" where
  "field_size field_name =
     (let normalized_field = normalize field_name;
          (field_width, field_height) =
            (if any_in [''description'', ''comment'', ''notes''] normalized_field then (100, 100)
             else if any_in DATE_PATTERN normalized_field then (50, 64)
             else if any_in ID_PATTERN normalized_field then (50, 50)
             else (50, 74));
          field_width = (if length field_name > 15
                         then min (field_width * (3 / 2)) 100 else field_width)
      in (field_width, field_height))"

text \<open>The body of \<^verbatim>\<open>for position, idx in enumerate(sorted_indices)\<close>, on the row at \<open>idx\<close>.\<close>

definition place_field :: "nat \<Rightarrow> nat \<Rightarrow> row \<Rightarrow> row" where
  "place_field columns position r =
     (let col = position mod columns;
          row = position div columns;
          x_pos = INITIAL_X + (int col * HORIZONTAL_STEP);
          y_pos = INITIAL_Y + (int row * VERTICAL_STEP);
          r = r\<lparr>PosX_1 := x_pos, PosY_1 := y_pos\<rparr>
      in case Field_C r of
           Str field_name \<Rightarrow>
             (let (field_width, field_height) = field_size field_name
              in r\<lparr>Width_1 := field_width, Height_1 := field_height\<rparr>)
         | _ \<Rightarrow> r)"

definition sorted_indices :: "string \<Rightarrow> row list \<Rightarrow> nat list" where
  "sorted_indices dashboard df =
     (let dashboard_df = select (\<lambda>r. Dashboard r = dashboard) df;
          field_indices = map fst dashboard_df
      in sort_key (\<lambda>idx. advanced_field_priority (Field_C (df ! idx))) field_indices)"

text \<open>One iteration of \<^verbatim>\<open>for dashboard in self.df["Dashboard"].unique()\<close>.\<close>

definition layout_dashboard :: "string \<Rightarrow> row list \<Rightarrow> row list" where
  "layout_dashboard dashboard df =
     (let dashboard_df = select (\<lambda>r. Dashboard r = dashboard) df;
          fields = map (Field_C \<circ> snd) dashboard_df;
          field_count = length fields;
          columns = column_count field_count
      in fold (\<lambda>(position, idx) d. d[idx := place_field columns position (d ! idx)])
           (enumerate 0 (sorted_indices dashboard df)) df)"

definition position_dashboard_fields :: "row list \<Rightarrow> row list" where
  "position_dashboard_fields df = fold layout_dashboard (unique (map Dashboard df)) df"

subsection \<open>PositionalAligner.generate\_view\_type\_attributes\<close>

definition clean_field :: "string \<Rightarrow> string" where
  "clean_field field = py_strip (remove_char CHR '' '' field)"

definition attr_string :: "(nat \<times> row) list \<Rightarrow> string" where
  "attr_string grp =
     (let field_names = unique (dropna_astype_str (map (Field_C \<circ> snd) grp));
          fields_cleaned =
            map clean_field (filter (\<lambda>f. py_lower (py_strip f) \<noteq> ''record id'') field_names)
      in join ''|'' (map (\<lambda>f. f @ ''::False::0::0'') fields_cleaned))"

definition group_key :: "row \<Rightarrow> string \<times> string \<times> string" where
  "group_key r = (Dashboard r, Object_Name r, View_Type r)"

text \<open>
  \<^verbatim>\<open>df.groupby(['Dashboard', 'Object Name', 'View Type'])\<close>: the groups, each with the
  labels of its rows.  pandas yields them sorted by key and here they come in order of
  first appearance; the groups are disjoint and the loop writes only the rows of its
  group, so the order of the groups does not show in the result.
\<close>

definition groupby :: "row list \<Rightarrow> (nat \<times> row) list list" where
  "groupby df = map (\<lambda>key. select (\<lambda>r. group_key r = key) df) (unique (map group_key df))"

definition write_group :: "(nat \<times> row) list \<Rightarrow> row list \<Rightarrow> row list" where
  "write_group grp df =
     write_rows (map fst grp) (\<lambda>r. r\<lparr>View_Type_Attributes := attr_string grp\<rparr>) df"

definition generate_view_type_attributes :: "string list \<Rightarrow> row list \<Rightarrow> row list" where
  "generate_view_type_attributes cols df =
     (let df = (if ''View Type Attributes'' \<in> set cols then df
                else map (\<lambda>r. r\<lparr>View_Type_Attributes := []\<rparr>) df);
          grouped = groupby df
      in fold write_group grouped df)"

subsection \<open>PositionalAligner.apply\_smart\_layout\<close>

definition apply_smart_layout :: "string list \<Rightarrow> row list \<Rightarrow> row list" where
  "apply_smart_layout cols df =
     (let df = initialize_dataframe_columns cols df;
          modules = unique (map Module df);
          df = position_dashboard_panels_by_module modules df;
          df = position_dashboard_fields df
      in generate_view_type_attributes cols df)"

section \<open>An empty row for the worked examples\<close>

text \<open>
  A row of the dashboard sheet with blank key cells, a null field and the default
  geometry; the examples of the specification are rows that differ from it in the
  cells they name.
\<close>

definition blank_row :: row where
  "blank_row = \<lparr>Module = [], Dashboard = [], Element_Id = [], Object_Type = ''Table'',
     Object_Name = [], View_Type = ''List'', Field_C = Null, PosX = 0, PosY = 0, Width = 6,
     Height = 14, PosX_1 = 3, PosY_1 = 5, Width_1 = 50, Height_1 = 50,
     View_Type_Attributes = []\<rparr>"

definition panel_row :: "string \<Rightarrow> string \<Rightarrow> row" where
  "panel_row m d = blank_row\<lparr>Module := m, Dashboard := d\<rparr>"

definition field_row :: "string \<Rightarrow> string \<Rightarrow> cell \<Rightarrow> row" where
  "field_row m d f = blank_row\<lparr>Module := m, Dashboard := d, Field_C := f\<rparr>"

section \<open>Reference definitions for the element ids\<close>



section \<open>Reference definitions for the validator\<close>









text \<open>
  The columns of the frames of the examples, the summary of the validator example, and
  a summary whose sheet has punctuation in its column labels.
\<close>

definition table_cols :: "string list" where
  "table_cols = [''Table Name'', ''Field'', ''Display Field'']"

definition orders_summary :: "(string \<times> table_cell list) list" where
  "orders_summary = [(''Orders'', [TStr ''OrderID'', TStr ''Status''])]"


definition table_entry :: "table_cell \<Rightarrow> table_cell \<Rightarrow> table_row" where
  "table_entry field display =
     \<lparr>Table_Name = TStr ''Orders'', Field_T = field, Display_Field = display\<rparr>"

section \<open>Reference definitions for the field layout\<close>

text \<open>
  The position of the first occurrence of a value in a list, counted from 0.
\<close>

definition position_of :: "'a \<Rightarrow> 'a list \<Rightarrow> nat" where
  "position_of j idxs = length (takeWhile (\<lambda>i. i \<noteq> j) idxs)"

text \<open>
  The loop over \<^verbatim>\<open>enumerate(sorted_indices)\<close> as a function of the pairs it runs over.
\<close>

definition place_all :: "nat \<Rightarrow> (nat \<times> nat) list \<Rightarrow> row list \<Rightarrow> row list" where
  "place_all cc ps df = fold (\<lambda>(position, idx) d. d[idx := place_field cc position (d ! idx)]) ps df"

text \<open>
  What the specification gives the row with label \<open>j\<close>: its dashboard's rows, in all
  modules, are sorted by priority, and the row is placed by its position in that order
  in a grid with the column count of the group.
\<close>

definition placed :: "row list \<Rightarrow> nat \<Rightarrow> row" where
  "placed df j =
     (let order = sorted_indices (Dashboard (df ! j)) df
      in place_field (column_count (length order)) (position_of j order) (df ! j))"

text \<open>
  Three fields of a dashboard named Orders that two modules share, and the fields of
  the sizing example with a null field beside them.
\<close>

definition priority_example :: "row list" where
  "priority_example = [field_row ''Sales'' ''Orders'' (Str ''Description''),
                       field_row ''Sales'' ''Orders'' (Str ''OrderID''),
                       field_row ''Stock'' ''Orders'' (Str ''CreatedDate'')]"

definition sizing_example :: "row list" where
  "sizing_example = [field_row ''Sales'' ''Orders'' (Str ''Notes''),
                     field_row ''Sales'' ''Orders'' (Str ''ModifiedDate''),
                     field_row ''Sales'' ''Orders'' (Str ''PreferredShippingMode''),
                     field_row ''Sales'' ''Orders'' Null]"

section \<open>Reference definitions for the view type attributes\<close>

text \<open>
  The rows of the group of a row: the same dashboard, object name and view type.
\<close>

definition group_rows :: "row list \<Rightarrow> row \<Rightarrow> row list" where
  "group_rows df r = filter (\<lambda>r'. group_key r' = group_key r) df"

text \<open>
  The attribute string of the fields of a group: the distinct field names that are not
  null, in order of appearance, without those that are the fallback identifier once
  trimmed and lowered; each with its spaces removed and the whitespace left at its ends
  trimmed, followed by \<^verbatim>\<open>::False::0::0\<close>; joined by a bar.
\<close>

definition serialize :: "cell list \<Rightarrow> string" where
  "serialize cells =
     join ''|''
       (map (\<lambda>f. py_strip (remove_char CHR '' '' f) @ ''::False::0::0'')
          (filter (\<lambda>f. py_lower (py_strip f) \<noteq> ''record id'')
             (unique (dropna_astype_str cells))))"

text \<open>
  The same with the cleaning that the specification states: spaces are removed and
  nothing is trimmed.
\<close>

definition serialize_stated :: "cell list \<Rightarrow> string" where
  "serialize_stated cells =
     join ''|''
       (map (\<lambda>f. remove_char CHR '' '' f @ ''::False::0::0'')
          (filter (\<lambda>f. py_lower (py_strip f) \<noteq> ''record id'')
             (unique (dropna_astype_str cells))))"

text \<open>
  The three fields of the serialization example, and a field that starts with a tab.
\<close>

definition attributes_example :: "row list" where
  "attributes_example = [field_row ''Sales'' ''Orders'' (Str ''Order ID''),
                         field_row ''Sales'' ''Orders'' (Str ''Record ID''),
                         field_row ''Sales'' ''Orders'' (Str ''Ship Date'')]"

definition tab_example :: "row list" where
  "tab_example = [field_row ''Sales'' ''Orders'' (Str [CHR 0x09, CHR ''A''])]"

section \<open>Reference definitions for the panel layout\<close>

text \<open>
  The panel of a dashboard in a module is the group of the rows with that module and
  that dashboard.  Its width is 6, and 3 more when a row of the group has the object
  type Report.  Its height is 14; a group of more than 8 rows adds twice the rounded-up
  half of the rows beyond 8, and a row with the view type Report Summary adds 4.
\<close>

definition panel_rows :: "row list \<Rightarrow> string \<Rightarrow> string \<Rightarrow> row list" where
  "panel_rows df m d = filter (\<lambda>r. Module r = m \<and> Dashboard r = d) df"

definition panel_width :: "row list \<Rightarrow> int" where
  "panel_width grp = 6 + (if ''Report'' \<in> set (map Object_Type grp) then 3 else 0)"

definition panel_height :: "row list \<Rightarrow> int" where
  "panel_height grp =
     14 + (if length grp > 8 then 2 * int (ceil_half (length grp - 8)) else 0)
        + (if ''Report Summary'' \<in> set (map View_Type grp) then 4 else 0)"

text \<open>The dashboards of a module, in the order in which its rows first name them.\<close>

definition module_dashboards :: "row list \<Rightarrow> string \<Rightarrow> string list" where
  "module_dashboards df m = unique (map Dashboard (filter (\<lambda>r. Module r = m) df))"

text \<open>
  The cursor is \<^verbatim>\<open>(currentX, currentY, maxHeightInRow)\<close>.  Placing a panel moves it right
  by the width of the panel; at 18 or beyond it wraps to the left edge, below the
  tallest panel of the band by 5, and the band height starts again at 0.
\<close>

definition advance :: "int \<times> int \<times> int \<Rightarrow> int \<times> int \<Rightarrow> int \<times> int \<times> int" where
  "advance cursor panel =
     (case cursor of (current_x, current_y, max_height_in_row) \<Rightarrow>
      case panel of (width, height) \<Rightarrow>
        if current_x + width \<ge> 18
        then (0, current_y + (max max_height_in_row height + 5), 0)
        else (current_x + width, current_y, max max_height_in_row height))"

text \<open>
  The cursor before the panel with number \<open>k\<close>, after the \<open>k\<close> panels placed before
  it, from a given start and from the origin of a module.
\<close>

definition cursor_from :: "int \<times> int \<times> int \<Rightarrow> (int \<times> int) list \<Rightarrow> nat \<Rightarrow> int \<times> int \<times> int" where
  "cursor_from start sizes k = fold (\<lambda>panel cursor. advance cursor panel) (take k sizes) start"

definition cursor_before :: "(int \<times> int) list \<Rightarrow> nat \<Rightarrow> int \<times> int \<times> int" where
  "cursor_before sizes k = cursor_from (0, 0, 0) sizes k"

text \<open>
  The sizes of the panels of a module in the order of its dashboards, and the geometry
  \<^verbatim>\<open>(posX, posY, width, height)\<close> of the panel of a dashboard: the cursor before it, and its
  size.
\<close>

definition panel_sizes :: "row list \<Rightarrow> string \<Rightarrow> (int \<times> int) list" where
  "panel_sizes df m =
     map (\<lambda>d. (panel_width (panel_rows df m d), panel_height (panel_rows df m d)))
       (module_dashboards df m)"

definition panel_geometry :: "row list \<Rightarrow> string \<Rightarrow> string \<Rightarrow> int \<times> int \<times> int \<times> int" where
  "panel_geometry df m d =
     (case cursor_before (panel_sizes df m) (position_of d (module_dashboards df m)) of
        (current_x, current_y, max_height_in_row) \<Rightarrow>
          (current_x, current_y, panel_width (panel_rows df m d), panel_height (panel_rows df m d)))"

text \<open>The same from any cursor and for any list of dashboards: the state inside the loop.\<close>

definition geometry_from ::
  "row list \<Rightarrow> string \<Rightarrow> int \<times> int \<times> int \<Rightarrow> string list \<Rightarrow> string \<Rightarrow> int \<times> int \<times> int \<times> int" where
  "geometry_from df m start ds d =
     (case cursor_from start
             (map (\<lambda>d. (panel_width (panel_rows df m d), panel_height (panel_rows df m d))) ds)
             (position_of d ds) of
        (current_x, current_y, max_height_in_row) \<Rightarrow>
          (current_x, current_y, panel_width (panel_rows df m d), panel_height (panel_rows df m d)))"

text \<open>The panel cells of a row, a write of all four, and the row after the panel pass.\<close>

definition geometry :: "row \<Rightarrow> int \<times> int \<times> int \<times> int" where
  "geometry r = (PosX r, PosY r, Width r, Height r)"

definition set_geometry :: "int \<times> int \<times> int \<times> int \<Rightarrow> row \<Rightarrow> row" where
  "set_geometry g r = (case g of (x, y, w, h) \<Rightarrow> r\<lparr>PosX := x, PosY := y, Width := w, Height := h\<rparr>)"

definition paneled :: "row list \<Rightarrow> nat \<Rightarrow> row" where
  "paneled df j = set_geometry (panel_geometry df (Module (df ! j)) (Dashboard (df ! j))) (df ! j)"

text \<open>The columns that the panel pass reads.\<close>

definition key_cols :: "row \<Rightarrow> string \<times> string \<times> string \<times> string" where
  "key_cols r = (Module r, Dashboard r, Object_Type r, View_Type r)"

text \<open>
  Six dashboards of one row each in one module; a module whose first dashboard has
  eleven rows, one of them a report, followed by a report summary and two plain
  dashboards, beside a second module; and a frame in which a dashboard of one module
  has two rows, one of them with a null field, and shares its name with a dashboard of
  another module.  Before it, a frame of one row with a null field and a field size
  of its own.
\<close>

definition wrap_example :: "row list" where
  "wrap_example = [panel_row ''Sales'' ''A'', panel_row ''Sales'' ''B'', panel_row ''Sales'' ''C'',
                   panel_row ''Sales'' ''D'', panel_row ''Sales'' ''E'', panel_row ''Sales'' ''F'']"

definition sized_example :: "row list" where
  "sized_example =
     (panel_row ''Sales'' ''A'')\<lparr>Object_Type := ''Report''\<rparr>
       # replicate 10 (panel_row ''Sales'' ''A'')
       @ [(panel_row ''Sales'' ''B'')\<lparr>View_Type := ''Report Summary''\<rparr>,
          panel_row ''Sales'' ''C'', panel_row ''Sales'' ''D'', panel_row ''Stock'' ''A'']"

definition presized_example :: "row list" where
  "presized_example = [(field_row ''Sales'' ''Orders'' Null)\<lparr>Width_1 := 999, Height_1 := 7\<rparr>]"

definition shared_example :: "row list" where
  "shared_example = [field_row ''Sales'' ''Orders'' (Str ''OrderID''),
                     field_row ''Sales'' ''Leads'' (Str ''Lead Name''),
                     field_row ''Sales'' ''Orders'' Null,
                     field_row ''Stock'' ''Orders'' (Str ''Notes'')]"

section \<open>Properties of sanitize\_field\<close>

lemma set_remove_char: "set (remove_char c s) = set s - {c}"
  by (auto simp: remove_char_def)

lemma set_fold_remove_char: "set (fold remove_char cs s) = set s - set cs"
  by (induction cs arbitrary: s) (auto simp: set_remove_char)

lemma remove_char_absent: "c \<notin> set s \<Longrightarrow> remove_char c s = s"
  unfolding remove_char_def by (induction s) auto

lemma fold_remove_char_absent: "set s \<inter> set cs = {} \<Longrightarrow> fold remove_char cs s = s"
  by (induction cs arbitrary: s) (auto simp: remove_char_absent)

text \<open>
  C8.  Sanitizing twice is the same as sanitizing once, and the sanitized string contains
  none of the thirteen characters \<^verbatim>\<open>. + - * / ( ) [ ] " { } _\<close>.  The function is a total
  HOL function of its string argument only.
\<close>

theorem sanitize_field_idempotent_clean:
  "sanitize_field (sanitize_field s) = sanitize_field s
   \<and> set (sanitize_field s) \<inter> set invalid_chars = {}
   \<and> set invalid_chars = {CHR ''.'', CHR ''+'', CHR ''-'', CHR ''*'', CHR ''/'', CHR ''('',
        CHR '')'', CHR ''['', CHR '']'', CHR 0x22, CHR ''{'', CHR ''}'', CHR ''_''}"
proof -
  have clean: "set (sanitize_field s) \<inter> set invalid_chars = {}"
    unfolding sanitize_field_def by (auto simp: set_fold_remove_char)
  have "sanitize_field (sanitize_field s) = sanitize_field s"
    using fold_remove_char_absent [OF clean] by (simp add: sanitize_field_def)
  moreover have "set invalid_chars = {CHR ''.'', CHR ''+'', CHR ''-'', CHR ''*'', CHR ''/'',
        CHR ''('', CHR '')'', CHR ''['', CHR '']'', CHR 0x22, CHR ''{'', CHR ''}'', CHR ''_''}"
    by (simp add: invalid_chars_def)
  ultimately show ?thesis using clean by simp
qed

section \<open>Element ids\<close>







section \<open>The validator\<close>






text \<open>
  The other exceptions of the body: a frame without the \<^verbatim>\<open>Field\<close> column, a table name
  that is a list, and a sheet with a numeric column label.
\<close>

lemma validate_fields_exceptions:
  "validate_fields [''Table Name'', ''Display Field''] orders_summary
     [table_entry (TStr ''OrderID'') (TStr ''Record ID'')] = Inl KeyError
   \<and> validate_fields table_cols orders_summary
     [\<lparr>Table_Name = TUnhashable, Field_T = TStr ''OrderID'', Display_Field = TStr ''Record ID''\<rparr>]
       = Inl TypeError
   \<and> validate_fields table_cols [(''Orders'', [TStr ''OrderID'', TScalar])] [] = Inl AttributeError"
  by code_simp




section \<open>Frames, selections and label writes\<close>

lemma length_write_rows: "length (write_rows ls f df) = length df"
  unfolding write_rows_def by (induction ls arbitrary: df) auto

lemma write_rows_nth:
  "distinct ls \<Longrightarrow> j < length df \<Longrightarrow>
   write_rows ls f df ! j = (if j \<in> set ls then f (df ! j) else df ! j)"
proof (induction ls arbitrary: df)
  case Nil
  then show ?case by (simp add: write_rows_def)
next
  case (Cons l ls)
  have step: "write_rows (l # ls) f df = write_rows ls f (df[l := f (df ! l)])"
    by (simp add: write_rows_def)
  have ih: "write_rows ls f (df[l := f (df ! l)]) ! j
      = (if j \<in> set ls then f (df[l := f (df ! l)] ! j) else df[l := f (df ! l)] ! j)"
    using Cons.prems by (intro Cons.IH) auto
  show ?case
  proof (cases "j = l")
    case True
    then have "j \<notin> set ls" using Cons.prems by simp
    then show ?thesis using ih step True Cons.prems by simp
  next
    case False
    then have "df[l := f (df ! l)] ! j = df ! j" by simp
    then show ?thesis using ih step False by simp
  qed
qed

lemma map_fst_select: "map fst (select keep df) = filter (\<lambda>i. keep (df ! i)) [0..<length df]"
proof -
  have "enumerate 0 df = map (\<lambda>i. (i, df ! i)) [0..<length df]"
    by (rule nth_equalityI) (simp_all add: nth_enumerate_eq)
  then show ?thesis by (simp add: select_def filter_map comp_def)
qed

lemma set_select_labels:
  "set (map fst (select keep df)) = {i. i < length df \<and> keep (df ! i)}"
  by (auto simp: map_fst_select)

lemma distinct_select_labels: "distinct (map fst (select keep df))"
  by (simp add: map_fst_select)

lemma select_rows: "(i, r) \<in> set (select keep df) \<Longrightarrow> r = df ! i \<and> i < length df"
  by (auto simp: select_def in_set_enumerate_eq)

lemma select_eq_map: "select keep df = map (\<lambda>i. (i, df ! i)) (filter (\<lambda>i. keep (df ! i)) [0..<length df])"
proof -
  have "enumerate 0 df = map (\<lambda>i. (i, df ! i)) [0..<length df]"
    by (rule nth_equalityI) (simp_all add: nth_enumerate_eq)
  then show ?thesis by (simp add: select_def filter_map comp_def)
qed

lemma unique_set: "set (unique xs) = set xs"
  by (induction xs rule: unique.induct) auto

lemma unique_distinct: "distinct (unique xs)"
  by (induction xs rule: unique.induct) (auto simp: unique_set)

lemma sort_key_cong_set:
  "(\<And>x. x \<in> set xs \<Longrightarrow> f x = g x) \<Longrightarrow> sort_key f xs = sort_key g xs"
proof (induction xs)
  case Nil
  then show ?case by simp
next
  case (Cons x xs)
  have ins: "\<And>ys. set ys \<subseteq> set xs \<Longrightarrow> insort_key f x ys = insort_key g x ys"
  proof -
    fix ys show "set ys \<subseteq> set xs \<Longrightarrow> insort_key f x ys = insort_key g x ys"
      using Cons.prems by (induction ys) auto
  qed
  have "sort_key f xs = sort_key g xs" using Cons by simp
  then show ?case using ins [of "sort_key g xs"] by simp
qed

section \<open>Field layout\<close>

lemma position_of_nth: "distinct idxs \<Longrightarrow> p < length idxs \<Longrightarrow> position_of (idxs ! p) idxs = p"
proof (induction idxs arbitrary: p)
  case Nil
  then show ?case by simp
next
  case (Cons i idxs)
  then show ?case by (cases p) (auto simp: position_of_def)
qed

lemma position_of_less: "j \<in> set idxs \<Longrightarrow> position_of j idxs < length idxs"
  unfolding position_of_def by (induction idxs) auto

lemma nth_position_of: "j \<in> set idxs \<Longrightarrow> idxs ! position_of j idxs = j"
  unfolding position_of_def by (induction idxs) auto

lemma place_field_keys [simp]:
  "Module (place_field cc p r) = Module r"
  "Dashboard (place_field cc p r) = Dashboard r"
  "Field_C (place_field cc p r) = Field_C r"
  "Object_Type (place_field cc p r) = Object_Type r"
  "Object_Name (place_field cc p r) = Object_Name r"
  "View_Type (place_field cc p r) = View_Type r"
  "Element_Id (place_field cc p r) = Element_Id r"
  "View_Type_Attributes (place_field cc p r) = View_Type_Attributes r"
  by (simp_all add: place_field_def Let_def split: cell.splits prod.splits)

lemma place_field_panel [simp]:
  "PosX (place_field cc p r) = PosX r"
  "PosY (place_field cc p r) = PosY r"
  "Width (place_field cc p r) = Width r"
  "Height (place_field cc p r) = Height r"
  by (simp_all add: place_field_def Let_def split: cell.splits prod.splits)

lemma length_place_all: "length (place_all cc ps df) = length df"
  unfolding place_all_def by (induction ps arbitrary: df) (auto split: prod.splits)

lemma place_all_untouched:
  "j \<notin> set idxs \<Longrightarrow> place_all cc (enumerate n idxs) df ! j = df ! j"
  unfolding place_all_def by (induction idxs arbitrary: n df) auto

lemma place_all_nth:
  "distinct idxs \<Longrightarrow> p < length idxs \<Longrightarrow> idxs ! p < length df \<Longrightarrow>
   place_all cc (enumerate n idxs) df ! (idxs ! p) = place_field cc (n + p) (df ! (idxs ! p))"
proof (induction idxs arbitrary: n df p)
  case Nil
  then show ?case by simp
next
  case (Cons i idxs)
  let ?df = "df[i := place_field cc n (df ! i)]"
  have step: "place_all cc (enumerate n (i # idxs)) df = place_all cc (enumerate (Suc n) idxs) ?df"
    by (simp add: place_all_def)
  show ?case
  proof (cases p)
    case 0
    have "i \<notin> set idxs" using Cons.prems by simp
    then have "place_all cc (enumerate (Suc n) idxs) ?df ! i = ?df ! i"
      by (rule place_all_untouched)
    then show ?thesis using 0 step Cons.prems by simp
  next
    case (Suc q)
    have q: "q < length idxs" "distinct idxs" "idxs ! q < length ?df"
      using Suc Cons.prems by auto
    have ne: "idxs ! q \<noteq> i" using Cons.prems q by auto
    have "place_all cc (enumerate (Suc n) idxs) ?df ! (idxs ! q)
        = place_field cc (Suc n + q) (?df ! (idxs ! q))"
      using q by (intro Cons.IH)
    then show ?thesis using Suc step ne by simp
  qed
qed

lemma layout_dashboard_eq:
  "layout_dashboard d df =
     place_all (column_count (length (sorted_indices d df))) (enumerate 0 (sorted_indices d df)) df"
  by (simp add: layout_dashboard_def place_all_def sorted_indices_def Let_def)

lemma set_sorted_indices:
  "set (sorted_indices d df) = {i. i < length df \<and> Dashboard (df ! i) = d}"
  by (simp add: sorted_indices_def Let_def set_select_labels [simplified])

lemma distinct_sorted_indices: "distinct (sorted_indices d df)"
  using distinct_select_labels [of "\<lambda>r. Dashboard r = d" df]
  by (simp add: sorted_indices_def Let_def)

lemma length_layout_dashboard: "length (layout_dashboard d df) = length df"
  by (simp add: layout_dashboard_eq length_place_all)

lemma layout_dashboard_nth:
  assumes "j < length df"
  shows "layout_dashboard d df ! j = (if Dashboard (df ! j) = d then placed df j else df ! j)"
proof (cases "Dashboard (df ! j) = d")
  case True
  let ?order = "sorted_indices d df"
  have mem: "j \<in> set ?order" using True assms by (simp add: set_sorted_indices)
  have p: "position_of j ?order < length ?order" using mem by (rule position_of_less)
  have at: "?order ! position_of j ?order = j" using mem by (rule nth_position_of)
  have "place_all (column_count (length ?order)) (enumerate 0 ?order) df ! (?order ! position_of j ?order)
      = place_field (column_count (length ?order)) (0 + position_of j ?order)
          (df ! (?order ! position_of j ?order))"
    using distinct_sorted_indices p assms at by (intro place_all_nth) auto
  then show ?thesis using True at by (simp add: layout_dashboard_eq placed_def Let_def)
next
  case False
  then have "j \<notin> set (sorted_indices d df)" by (simp add: set_sorted_indices)
  then show ?thesis using False by (simp add: layout_dashboard_eq place_all_untouched)
qed

lemma placed_keys [simp]:
  "Dashboard (placed df j) = Dashboard (df ! j)"
  "Field_C (placed df j) = Field_C (df ! j)"
  by (simp_all add: placed_def Let_def)

lemma layout_dashboard_cols:
  "map Dashboard (layout_dashboard d df) = map Dashboard df"
  "map Field_C (layout_dashboard d df) = map Field_C df"
  by (rule nth_equalityI; simp add: length_layout_dashboard layout_dashboard_nth)+

lemma sorted_indices_cong:
  assumes "map Dashboard df' = map Dashboard df" and "map Field_C df' = map Field_C df"
  shows "sorted_indices d df' = sorted_indices d df"
proof -
  have len: "length df' = length df" using assms(1) by (rule map_eq_imp_length_eq)
  have dash: "\<And>i. i < length df \<Longrightarrow> Dashboard (df' ! i) = Dashboard (df ! i)"
    using assms(1) len by (metis nth_map)
  have fld: "\<And>i. i < length df \<Longrightarrow> Field_C (df' ! i) = Field_C (df ! i)"
    using assms(2) len by (metis nth_map)
  have labels: "filter (\<lambda>i. Dashboard (df' ! i) = d) [0..<length df']
      = filter (\<lambda>i. Dashboard (df ! i) = d) [0..<length df]"
    using len dash by (auto intro: filter_cong)
  have "sort_key (\<lambda>idx. advanced_field_priority (Field_C (df' ! idx)))
          (filter (\<lambda>i. Dashboard (df ! i) = d) [0..<length df])
      = sort_key (\<lambda>idx. advanced_field_priority (Field_C (df ! idx)))
          (filter (\<lambda>i. Dashboard (df ! i) = d) [0..<length df])"
    by (rule sort_key_cong_set) (simp add: fld)
  then show ?thesis using labels by (simp add: sorted_indices_def Let_def map_fst_select)
qed

lemma fold_layout_dashboard_nth:
  "distinct ds \<Longrightarrow> j < length df \<Longrightarrow>
   fold layout_dashboard ds df ! j = (if Dashboard (df ! j) \<in> set ds then placed df j else df ! j)"
proof (induction ds arbitrary: df)
  case Nil
  then show ?case by simp
next
  case (Cons d ds)
  let ?df = "layout_dashboard d df"
  have j: "j < length ?df" using Cons.prems by (simp add: length_layout_dashboard)
  have dj: "Dashboard (?df ! j) = Dashboard (df ! j)"
    using Cons.prems by (simp add: layout_dashboard_nth)
  have ih: "fold layout_dashboard ds ?df ! j
      = (if Dashboard (?df ! j) \<in> set ds then placed ?df j else ?df ! j)"
    using Cons.prems j by (intro Cons.IH) auto
  show ?case
  proof (cases "Dashboard (df ! j) = d")
    case True
    then have "Dashboard (df ! j) \<notin> set ds" using Cons.prems by auto
    then show ?thesis using ih dj True Cons.prems by (simp add: layout_dashboard_nth)
  next
    case False
    then have same: "?df ! j = df ! j" using Cons.prems by (simp add: layout_dashboard_nth)
    have "sorted_indices (Dashboard (df ! j)) ?df = sorted_indices (Dashboard (df ! j)) df"
      by (rule sorted_indices_cong) (rule layout_dashboard_cols)+
    then have "placed ?df j = placed df j"
      using same by (simp add: placed_def)
    then show ?thesis using ih dj False same by simp
  qed
qed

lemma length_fold_layout_dashboard: "length (fold layout_dashboard ds df) = length df"
  by (induction ds arbitrary: df) (simp_all add: length_layout_dashboard)

lemma position_dashboard_fields_nth:
  "j < length df \<Longrightarrow> position_dashboard_fields df ! j = placed df j"
  using fold_layout_dashboard_nth [OF unique_distinct, of j df "map Dashboard df"]
  by (simp add: position_dashboard_fields_def unique_set)

lemma length_position_dashboard_fields: "length (position_dashboard_fields df) = length df"
  by (simp add: position_dashboard_fields_def length_fold_layout_dashboard)

lemma ceil_half_ceiling: "int (ceil_half n) = \<lceil>real n / 2\<rceil>"
proof -
  have "\<lceil>real n / 2\<rceil> = \<lceil>real_of_int (int n) / real_of_int 2\<rceil>" by simp
  also have "\<dots> = - ((- int n) div 2)" by (rule ceiling_divide_eq_div)
  also have "\<dots> = int ((n + 1) div 2)" by linarith
  finally show ?thesis by (simp add: ceil_half_def)
qed

lemma square_less_iff_less_ceil_sqrt:
  "k * k < n \<longleftrightarrow> int k < \<lceil>sqrt (real n)\<rceil>"
proof -
  have "int k < \<lceil>sqrt (real n)\<rceil> \<longleftrightarrow> real k < sqrt (real n)"
    by (simp add: less_ceiling_iff)
  also have "\<dots> \<longleftrightarrow> (real k)\<^sup>2 < real n"
    by (metis of_nat_0_le_iff real_less_rsqrt real_sqrt_less_iff real_sqrt_abs abs_of_nonneg
        real_sqrt_lt_0_iff not_less)
  also have "\<dots> \<longleftrightarrow> k * k < n"
    by (metis of_nat_less_iff of_nat_mult power2_eq_square)
  finally show ?thesis by simp
qed

lemma filter_less_upt: "c \<le> n \<Longrightarrow> filter (\<lambda>k. k < c) [0..<n] = [0..<c]"
proof (induction n)
  case 0
  then show ?case by simp
next
  case (Suc n)
  show ?case
  proof (cases "c = Suc n")
    case True
    have "filter (\<lambda>k. k < Suc n) [0..<n] = [0..<n]" by (rule filter_True) simp
    then show ?thesis using True by simp
  next
    case False
    then have "c \<le> n" using Suc.prems by simp
    then show ?thesis using Suc.IH by simp
  qed
qed

lemma ceil_sqrt_ceiling: "int (ceil_sqrt n) = \<lceil>sqrt (real n)\<rceil>"
proof -
  define c where "c = nat \<lceil>sqrt (real n)\<rceil>"
  have c0: "0 \<le> \<lceil>sqrt (real n)\<rceil>"
  proof -
    have "0 \<le> sqrt (real n)" by simp
    then have "- 1 < sqrt (real n)" by linarith
    then show ?thesis by (simp add: zero_le_ceiling)
  qed
  have iff: "\<And>k. k * k < n \<longleftrightarrow> k < c"
    using square_less_iff_less_ceil_sqrt c0 by (simp add: c_def nat_less_iff zless_nat_eq_int_zless)
  have cn: "c \<le> n"
  proof (rule ccontr)
    assume "\<not> c \<le> n"
    then have "n < c" by simp
    then have "n * n < n" using iff by simp
    then show False by (cases n) auto
  qed
  have "filter (\<lambda>k. k * k < n) [0..<n] = filter (\<lambda>k. k < c) [0..<n]"
    using iff by simp
  also have "\<dots> = [0..<c]"
    using cn by (rule filter_less_upt)
  finally have "ceil_sqrt n = c" by (simp add: ceil_sqrt_def)
  then show ?thesis using c0 by (simp add: c_def)
qed

lemma normalize_eq:
  "normalize f = map (\<lambda>c. if c = CHR ''-'' \<or> c = CHR ''_'' then CHR '' '' else lower_char c) f"
proof -
  have "\<And>c. lower_char c = CHR ''-'' \<longleftrightarrow> c = CHR ''-''"
    by (auto simp: lower_char_def split: option.splits if_splits)
  moreover have "\<And>c. lower_char c = CHR ''_'' \<longleftrightarrow> c = CHR ''_''"
    by (auto simp: lower_char_def split: option.splits if_splits)
  ultimately show ?thesis
    by (auto simp: normalize_def py_lower_def replace_char_def)
qed

lemma advanced_field_priority_le: "advanced_field_priority c \<le> 100"
  by (cases c) (simp_all add: priority_map_def)

lemma position_dashboard_fields_at_sorted:
  assumes "p < length (sorted_indices d df)"
  shows "position_dashboard_fields df ! (sorted_indices d df ! p)
     = place_field (column_count (length (sorted_indices d df))) p (df ! (sorted_indices d df ! p))"
proof -
  let ?order = "sorted_indices d df"
  have "?order ! p \<in> set ?order" using assms by simp
  then have j: "?order ! p < length df" and dj: "Dashboard (df ! (?order ! p)) = d"
    by (simp_all add: set_sorted_indices)
  have "position_of (?order ! p) ?order = p"
    using distinct_sorted_indices assms by (rule position_of_nth)
  then show ?thesis
    using position_dashboard_fields_nth [OF j] dj by (simp add: placed_def Let_def)
qed

lemma place_field_position:
  "PosX_1 (place_field cc p r) = 3 + int (p mod cc) * 60"
  "PosY_1 (place_field cc p r) = 5 + int (p div cc) * 55"
  by (simp_all add: place_field_def Let_def INITIAL_X_def INITIAL_Y_def HORIZONTAL_STEP_def
      VERTICAL_STEP_def split: cell.splits prod.splits)

lemma sorted_rows_positions:
  "map (\<lambda>idx. (PosX_1 (position_dashboard_fields df ! idx),
                PosY_1 (position_dashboard_fields df ! idx))) (sorted_indices d df)
     = map (\<lambda>p. (3 + int (p mod column_count (length (sorted_indices d df))) * 60,
                  5 + int (p div column_count (length (sorted_indices d df))) * 55))
         [0..<length (sorted_indices d df)]"
  by (rule nth_equalityI)
     (simp_all add: position_dashboard_fields_at_sorted place_field_position)

text \<open>
  C2.  The field pass places the rows of a dashboard group in the order of a stable
  sort on the priority score: taken in that order, the rows of its output hold the
  grid slots 0, 1, 2, ... of the group; the order is the sort of the group's labels in
  row order, it is ascending in the score, and rows with equal scores keep their row
  order.  The score of a string
  is decided by the first of six pattern groups with a pattern that occurs in the name
  after lower-casing and turning hyphens and underscores into spaces: -10, -5, 0, 5,
  10, 15 in that order, and 20 when none matches; a field that is not a string scores
  100.  Description, OrderID, CreatedDate score 20, -10, 0 and sort to OrderID,
  CreatedDate, Description.
\<close>

theorem field_priority_order:
  "sorted_indices d df
     = sort_key (\<lambda>idx. advanced_field_priority (Field_C (df ! idx)))
         (filter (\<lambda>i. Dashboard (df ! i) = d) [0..<length df])
   \<and> sorted (map (\<lambda>idx. advanced_field_priority (Field_C (df ! idx))) (sorted_indices d df))
   \<and> filter (\<lambda>idx. advanced_field_priority (Field_C (df ! idx)) = k) (sorted_indices d df)
       = filter (\<lambda>idx. advanced_field_priority (Field_C (df ! idx)) = k)
           (filter (\<lambda>i. Dashboard (df ! i) = d) [0..<length df])
   \<and> advanced_field_priority (Str f)
       = (if any_in [''id'', ''code'', ''number'', ''key''] (normalize f) then - 10
          else if any_in [''name'', ''title'', ''label''] (normalize f) then - 5
          else if any_in [''date'', ''created'', ''modified'', ''time''] (normalize f) then 0
          else if any_in [''status'', ''state'', ''condition'', ''phase''] (normalize f) then 5
          else if any_in [''amount'', ''price'', ''cost'', ''value'', ''total''] (normalize f) then 10
          else if any_in [''email'', ''phone'', ''contact'', ''address''] (normalize f) then 15
          else 20)
   \<and> normalize f
       = map (\<lambda>c. if c = CHR ''-'' \<or> c = CHR ''_'' then CHR '' '' else lower_char c) f
   \<and> advanced_field_priority Null = 100
   \<and> advanced_field_priority (NonStr s) = 100
   \<and> map advanced_field_priority [Str ''Description'', Str ''OrderID'', Str ''CreatedDate'']
       = [20, - 10, 0]
   \<and> map (\<lambda>idx. Field_C (priority_example ! idx)) (sorted_indices ''Orders'' priority_example)
       = [Str ''OrderID'', Str ''CreatedDate'', Str ''Description'']
   \<and> map (\<lambda>idx. (PosX_1 (position_dashboard_fields df ! idx),
                  PosY_1 (position_dashboard_fields df ! idx))) (sorted_indices d df)
       = map (\<lambda>p. (3 + int (p mod column_count (length (sorted_indices d df))) * 60,
                    5 + int (p div column_count (length (sorted_indices d df))) * 55))
           [0..<length (sorted_indices d df)]
   \<and> map (\<lambda>r. (Field_C r, PosX_1 r, PosY_1 r)) (position_dashboard_fields priority_example)
       = [(Str ''Description'', 3, 60), (Str ''OrderID'', 3, 5), (Str ''CreatedDate'', 63, 5)]"
proof (intro conjI)
  show "map (\<lambda>idx. (PosX_1 (position_dashboard_fields df ! idx),
                  PosY_1 (position_dashboard_fields df ! idx))) (sorted_indices d df)
       = map (\<lambda>p. (3 + int (p mod column_count (length (sorted_indices d df))) * 60,
                    5 + int (p div column_count (length (sorted_indices d df))) * 55))
           [0..<length (sorted_indices d df)]"
    by (rule sorted_rows_positions)
  show "map (\<lambda>r. (Field_C r, PosX_1 r, PosY_1 r)) (position_dashboard_fields priority_example)
       = [(Str ''Description'', 3, 60), (Str ''OrderID'', 3, 5), (Str ''CreatedDate'', 63, 5)]"
    by code_simp
  show "sorted_indices d df
     = sort_key (\<lambda>idx. advanced_field_priority (Field_C (df ! idx)))
         (filter (\<lambda>i. Dashboard (df ! i) = d) [0..<length df])"
    by (simp add: sorted_indices_def Let_def map_fst_select)
  show "sorted (map (\<lambda>idx. advanced_field_priority (Field_C (df ! idx))) (sorted_indices d df))"
    by (simp add: sorted_indices_def Let_def)
  show "filter (\<lambda>idx. advanced_field_priority (Field_C (df ! idx)) = k) (sorted_indices d df)
       = filter (\<lambda>idx. advanced_field_priority (Field_C (df ! idx)) = k)
           (filter (\<lambda>i. Dashboard (df ! i) = d) [0..<length df])"
    by (simp only: sorted_indices_def Let_def map_fst_select sort_key_stable)
  show "advanced_field_priority (Str f)
       = (if any_in [''id'', ''code'', ''number'', ''key''] (normalize f) then - 10
          else if any_in [''name'', ''title'', ''label''] (normalize f) then - 5
          else if any_in [''date'', ''created'', ''modified'', ''time''] (normalize f) then 0
          else if any_in [''status'', ''state'', ''condition'', ''phase''] (normalize f) then 5
          else if any_in [''amount'', ''price'', ''cost'', ''value'', ''total''] (normalize f) then 10
          else if any_in [''email'', ''phone'', ''contact'', ''address''] (normalize f) then 15
          else 20)"
    by (simp add: priority_map_def id_patterns_def name_patterns_def date_patterns_def
        status_patterns_def amount_patterns_def contact_patterns_def)
  show "normalize f
       = map (\<lambda>c. if c = CHR ''-'' \<or> c = CHR ''_'' then CHR '' '' else lower_char c) f"
    by (rule normalize_eq)
  show "advanced_field_priority Null = 100" by simp
  show "advanced_field_priority (NonStr s) = 100" by simp
  show "map advanced_field_priority [Str ''Description'', Str ''OrderID'', Str ''CreatedDate'']
       = [20, - 10, 0]"
    by code_simp
  show "map (\<lambda>idx. Field_C (priority_example ! idx)) (sorted_indices ''Orders'' priority_example)
       = [Str ''OrderID'', Str ''CreatedDate'', Str ''Description'']"
    by code_simp
qed

text \<open>
  C3.  The group of a dashboard name is the set of all rows with that name, whatever
  their module.  With \<open>n\<close> rows in the group the column count is
  \<open>min (max 1 (ceil (sqrt n))) 4\<close>, and the row at position \<open>p\<close> of the sorted order
  gets \<open>x = 3 + (p mod columns) * 60\<close> and \<open>y = 5 + (p div columns) * 55\<close>.
\<close>

theorem position_dashboard_fields_grid:
  assumes "p < length (sorted_indices d df)"
  shows "set (sorted_indices d df) = {i. i < length df \<and> Dashboard (df ! i) = d}
    \<and> length (sorted_indices d df) = length (filter (\<lambda>r. Dashboard r = d) df)
    \<and> int (column_count (length (sorted_indices d df)))
        = min (max 1 \<lceil>sqrt (real (length (sorted_indices d df)))\<rceil>) 4
    \<and> PosX_1 (position_dashboard_fields df ! (sorted_indices d df ! p))
        = 3 + int (p mod column_count (length (sorted_indices d df))) * 60
    \<and> PosY_1 (position_dashboard_fields df ! (sorted_indices d df ! p))
        = 5 + int (p div column_count (length (sorted_indices d df))) * 55"
proof -
  let ?order = "sorted_indices d df"
  let ?j = "?order ! p"
  have mem: "?j \<in> set ?order" using assms by simp
  then have j: "?j < length df" and dj: "Dashboard (df ! ?j) = d"
    by (simp_all add: set_sorted_indices)
  have pos: "position_of ?j ?order = p"
    using distinct_sorted_indices assms by (rule position_of_nth)
  have res: "position_dashboard_fields df ! ?j = place_field (column_count (length ?order)) p (df ! ?j)"
    using position_dashboard_fields_nth [OF j] dj pos by (simp add: placed_def Let_def)
  have len: "length ?order = length (filter (\<lambda>r. Dashboard r = d) df)"
  proof -
    have "length ?order = length (filter (\<lambda>i. Dashboard (df ! i) = d) [0..<length df])"
      by (simp add: sorted_indices_def Let_def map_fst_select)
    also have "\<dots> = length (filter (\<lambda>r. Dashboard r = d) (map (\<lambda>i. df ! i) [0..<length df]))"
      by (simp add: filter_map comp_def)
    also have "\<dots> = length (filter (\<lambda>r. Dashboard r = d) df)"
      by (simp add: map_nth)
    finally show ?thesis .
  qed
  have cc: "int (column_count (length ?order)) = min (max 1 \<lceil>sqrt (real (length ?order))\<rceil>) 4"
    using ceil_sqrt_ceiling [of "length ?order"] by (simp add: column_count_def)
  have x: "PosX_1 (place_field (column_count (length ?order)) p (df ! ?j))
      = 3 + int (p mod column_count (length ?order)) * 60"
    by (simp add: place_field_def Let_def INITIAL_X_def HORIZONTAL_STEP_def
        split: cell.splits prod.splits)
  have y: "PosY_1 (place_field (column_count (length ?order)) p (df ! ?j))
      = 5 + int (p div column_count (length ?order)) * 55"
    by (simp add: place_field_def Let_def INITIAL_Y_def VERTICAL_STEP_def
        split: cell.splits prod.splits)
  show ?thesis using set_sorted_indices len cc x y res by simp
qed

theorem position_dashboard_fields_grid_witness:
  "2 < length (sorted_indices ''Orders'' priority_example)
   \<and> sorted_indices ''Orders'' priority_example ! 2 = 0
   \<and> column_count (length (sorted_indices ''Orders'' priority_example)) = 2
   \<and> PosX_1 (position_dashboard_fields priority_example ! 0) = 3
   \<and> PosY_1 (position_dashboard_fields priority_example ! 0) = 60"
proof -
  have h: "2 < length (sorted_indices ''Orders'' priority_example)" by code_simp
  have i: "sorted_indices ''Orders'' priority_example ! 2 = 0" by code_simp
  have c: "column_count (length (sorted_indices ''Orders'' priority_example)) = 2" by code_simp
  show ?thesis
    using position_dashboard_fields_grid [OF h] h i c by simp
qed

text \<open>
  C4.  A row whose field is a string gets the width and height of \<^verbatim>\<open>field_size\<close>: 100 by
  100 for a description, comment or notes pattern, else height 64 for a date pattern,
  else height 50 for an id pattern, else height 74, with width 50 in the last three
  cases; after that a name of more than 15 characters gets the width
  \<open>min (width * 1.5) 100\<close>, which is 75 from 50 and stays 100 from 100.  Notes is 100 by
  100, ModifiedDate has height 64, and the 21 characters of PreferredShippingMode give
  width 75.
\<close>

theorem field_sizing:
  assumes "j < length df" and "Field_C (df ! j) = Str name"
  shows "Width_1 (position_dashboard_fields df ! j) = fst (field_size name)
    \<and> Height_1 (position_dashboard_fields df ! j) = snd (field_size name)
    \<and> snd (field_size name)
        = (if any_in [''description'', ''comment'', ''notes''] (normalize name) then 100
           else if any_in [''date'', ''created'', ''modified'', ''time''] (normalize name) then 64
           else if any_in [''id'', ''code'', ''number'', ''key''] (normalize name) then 50
           else 74)
    \<and> fst (field_size name)
        = (if length name > 15
           then min ((if any_in [''description'', ''comment'', ''notes''] (normalize name)
                      then 100 else 50) * (3 / 2)) 100
           else if any_in [''description'', ''comment'', ''notes''] (normalize name)
                then 100 else 50)
    \<and> fst (field_size name)
        = (if any_in [''description'', ''comment'', ''notes''] (normalize name) then 100
           else if length name > 15 then 75 else 50)
    \<and> field_size ''Notes'' = (100, 100)
    \<and> snd (field_size ''ModifiedDate'') = 64
    \<and> length ''PreferredShippingMode'' = 21
    \<and> field_size ''PreferredShippingMode'' = (75, 74)"
proof -
  have res: "position_dashboard_fields df ! j
      = place_field (column_count (length (sorted_indices (Dashboard (df ! j)) df)))
          (position_of j (sorted_indices (Dashboard (df ! j)) df)) (df ! j)"
    using position_dashboard_fields_nth [OF assms(1)] by (simp add: placed_def Let_def)
  have w: "Width_1 (position_dashboard_fields df ! j) = fst (field_size name)"
    and h: "Height_1 (position_dashboard_fields df ! j) = snd (field_size name)"
    using assms(2) by (simp_all add: res place_field_def Let_def split: prod.splits)
  have hs: "snd (field_size name)
        = (if any_in [''description'', ''comment'', ''notes''] (normalize name) then 100
           else if any_in [''date'', ''created'', ''modified'', ''time''] (normalize name) then 64
           else if any_in [''id'', ''code'', ''number'', ''key''] (normalize name) then 50
           else 74)"
    by (simp add: field_size_def Let_def DATE_PATTERN_def ID_PATTERN_def)
  have ws: "fst (field_size name)
        = (if length name > 15
           then min ((if any_in [''description'', ''comment'', ''notes''] (normalize name)
                      then 100 else 50) * (3 / 2)) 100
           else if any_in [''description'', ''comment'', ''notes''] (normalize name)
                then 100 else 50)"
    by (simp add: field_size_def Let_def)
  have ws': "fst (field_size name)
        = (if any_in [''description'', ''comment'', ''notes''] (normalize name) then 100
           else if length name > 15 then 75 else 50)"
    by (simp add: field_size_def Let_def)
  have e1: "field_size ''Notes'' = (100, 100)" by code_simp
  have e2: "snd (field_size ''ModifiedDate'') = 64" by code_simp
  have e3: "length ''PreferredShippingMode'' = 21" by simp
  have e4: "field_size ''PreferredShippingMode'' = (75, 74)" by code_simp
  show ?thesis using w h hs ws ws' e1 e2 e3 e4 by blast
qed

theorem field_sizing_witness:
  "2 < length sizing_example
   \<and> Field_C (sizing_example ! 2) = Str ''PreferredShippingMode''
   \<and> Width_1 (position_dashboard_fields sizing_example ! 2) = 75
   \<and> Height_1 (position_dashboard_fields sizing_example ! 2) = 74"
proof -
  have h1: "2 < length sizing_example" by (simp add: sizing_example_def)
  have h2: "Field_C (sizing_example ! 2) = Str ''PreferredShippingMode''"
    by (simp add: sizing_example_def field_row_def)
  have "field_size ''PreferredShippingMode'' = (75, 74)" by code_simp
  then show ?thesis using field_sizing [OF h1 h2] h1 h2 by simp
qed

section \<open>View type attributes\<close>

lemma map_snd_select: "map snd (select keep df) = filter keep df"
proof -
  have "map snd (select keep df) = map (\<lambda>i. df ! i) (filter (\<lambda>i. keep (df ! i)) [0..<length df])"
    by (simp add: select_eq_map comp_def)
  also have "\<dots> = filter keep (map (\<lambda>i. df ! i) [0..<length df])"
    by (simp add: filter_map comp_def)
  finally show ?thesis by (simp add: map_nth)
qed

lemma attr_string_serialize: "attr_string grp = serialize (map Field_C (map snd grp))"
  by (simp add: attr_string_def serialize_def Let_def clean_field_def comp_def)

lemma write_group_nth:
  assumes "j < length d" and "length d = length df0"
  shows "write_group (select (\<lambda>r. group_key r = k) df0) d ! j
     = (if group_key (df0 ! j) = k
        then (d ! j)\<lparr>View_Type_Attributes := attr_string (select (\<lambda>r. group_key r = k) df0)\<rparr>
        else d ! j)"
proof -
  let ?sel = "select (\<lambda>r. group_key r = k) df0"
  let ?f = "\<lambda>r. r\<lparr>View_Type_Attributes := attr_string ?sel\<rparr>"
  have "write_rows (map fst ?sel) ?f d ! j
      = (if j \<in> set (map fst ?sel) then ?f (d ! j) else d ! j)"
    using distinct_select_labels assms(1) by (rule write_rows_nth)
  moreover have "j \<in> set (map fst ?sel) \<longleftrightarrow> group_key (df0 ! j) = k"
    using assms by (simp only: set_select_labels) simp
  ultimately show ?thesis by (simp add: write_group_def)
qed

lemma length_write_group: "length (write_group grp d) = length d"
  by (simp add: write_group_def length_write_rows)

lemma fold_write_group_nth:
  "distinct keys \<Longrightarrow> j < length d \<Longrightarrow> length d = length df0 \<Longrightarrow>
   fold write_group (map (\<lambda>key. select (\<lambda>r. group_key r = key) df0) keys) d ! j
     = (if group_key (df0 ! j) \<in> set keys
        then (d ! j)\<lparr>View_Type_Attributes :=
               attr_string (select (\<lambda>r. group_key r = group_key (df0 ! j)) df0)\<rparr>
        else d ! j)"
proof (induction keys arbitrary: d)
  case Nil
  then show ?case by simp
next
  case (Cons k keys)
  let ?d = "write_group (select (\<lambda>r. group_key r = k) df0) d"
  have len: "length ?d = length df0" "j < length ?d"
    using Cons.prems by (simp_all add: length_write_group)
  have ih: "fold write_group (map (\<lambda>key. select (\<lambda>r. group_key r = key) df0) keys) ?d ! j
     = (if group_key (df0 ! j) \<in> set keys
        then (?d ! j)\<lparr>View_Type_Attributes :=
               attr_string (select (\<lambda>r. group_key r = group_key (df0 ! j)) df0)\<rparr>
        else ?d ! j)"
    using Cons.prems len by (intro Cons.IH) auto
  have at: "?d ! j = (if group_key (df0 ! j) = k
        then (d ! j)\<lparr>View_Type_Attributes := attr_string (select (\<lambda>r. group_key r = k) df0)\<rparr>
        else d ! j)"
    using Cons.prems by (intro write_group_nth) auto
  show ?case
  proof (cases "group_key (df0 ! j) = k")
    case True
    then have "group_key (df0 ! j) \<notin> set keys" using Cons.prems by auto
    then show ?thesis using ih at True by simp
  next
    case False
    then show ?thesis using ih at by simp
  qed
qed

lemma length_fold_write_group: "length (fold write_group gs d) = length d"
  by (induction gs arbitrary: d) (simp_all add: length_write_group)

lemma length_generate_view_type_attributes:
  "length (generate_view_type_attributes cols df) = length df"
  by (simp add: generate_view_type_attributes_def Let_def length_fold_write_group)

lemma generate_view_type_attributes_nth:
  assumes "j < length df"
  shows "generate_view_type_attributes cols df ! j
     = (df ! j)\<lparr>View_Type_Attributes := serialize (map Field_C (group_rows df (df ! j)))\<rparr>"
proof -
  define df0 where "df0 = (if ''View Type Attributes'' \<in> set cols then df
                else map (\<lambda>r. r\<lparr>View_Type_Attributes := []\<rparr>) df)"
  have len: "length df0 = length df" by (simp add: df0_def)
  have keys: "\<And>r. group_key (r\<lparr>View_Type_Attributes := []\<rparr>) = group_key r"
    by (simp add: group_key_def)
  have kj: "group_key (df0 ! j) = group_key (df ! j)"
    using assms by (simp add: df0_def keys)
  have same: "(df0 ! j)\<lparr>View_Type_Attributes := v\<rparr> = (df ! j)\<lparr>View_Type_Attributes := v\<rparr>" for v
    using assms by (simp add: df0_def)
  have grp: "map Field_C (filter (\<lambda>r. group_key r = k) df0)
      = map Field_C (filter (\<lambda>r. group_key r = k) df)" for k
    by (simp add: df0_def filter_map comp_def keys)
  have mem: "group_key (df0 ! j) \<in> set (unique (map group_key df0))"
    using assms len by (simp add: unique_set)
  have "generate_view_type_attributes cols df ! j
      = fold write_group (map (\<lambda>key. select (\<lambda>r. group_key r = key) df0)
          (unique (map group_key df0))) df0 ! j"
    by (simp add: generate_view_type_attributes_def Let_def groupby_def df0_def)
  also have "\<dots> = (df0 ! j)\<lparr>View_Type_Attributes :=
               attr_string (select (\<lambda>r. group_key r = group_key (df0 ! j)) df0)\<rparr>"
    using fold_write_group_nth [OF unique_distinct, of j df0 df0 "map group_key df0"] assms len mem
    by simp
  also have "\<dots> = (df ! j)\<lparr>View_Type_Attributes := serialize (map Field_C (group_rows df (df ! j)))\<rparr>"
    by (simp add: attr_string_serialize map_snd_select kj same grp group_rows_def)
  finally show ?thesis .
qed

text \<open>
  C7, as amended.  Every row gets the attribute string of its group, the rows with its
  dashboard, object name and view type, and nothing else in the row changes: the
  distinct non-null field names in order of appearance, without those that equal the
  fallback identifier "Record ID" after trimming and lower-casing, each with its spaces
  removed and then trimmed of the whitespace left at its ends, as
  \<^verbatim>\<open>name::False::0::0\<close> segments joined by a bar.  The fields Order ID, Record ID,
  Ship Date give \<^verbatim>\<open>OrderID::False::0::0|ShipDate::False::0::0\<close>.
\<close>

theorem view_type_attributes_serialized:
  assumes "j < length df"
  shows "generate_view_type_attributes cols df ! j
       = (df ! j)\<lparr>View_Type_Attributes := serialize (map Field_C (group_rows df (df ! j)))\<rparr>
    \<and> length (generate_view_type_attributes cols df) = length df
    \<and> group_rows df (df ! j)
       = filter (\<lambda>r. Dashboard r = Dashboard (df ! j) \<and> Object_Name r = Object_Name (df ! j)
                    \<and> View_Type r = View_Type (df ! j)) df
    \<and> serialize [Str ''Order ID'', Str ''Record ID'', Str ''Ship Date'']
       = ''OrderID::False::0::0|ShipDate::False::0::0''"
proof -
  have "serialize [Str ''Order ID'', Str ''Record ID'', Str ''Ship Date'']
       = ''OrderID::False::0::0|ShipDate::False::0::0''"
    by code_simp
  moreover have "group_rows df (df ! j)
       = filter (\<lambda>r. Dashboard r = Dashboard (df ! j) \<and> Object_Name r = Object_Name (df ! j)
                    \<and> View_Type r = View_Type (df ! j)) df"
    by (simp add: group_rows_def group_key_def)
  ultimately show ?thesis
    using generate_view_type_attributes_nth [OF assms] length_generate_view_type_attributes
    by blast
qed

theorem view_type_attributes_serialized_witness:
  "1 < length attributes_example
   \<and> map View_Type_Attributes (generate_view_type_attributes [] attributes_example)
       = [''OrderID::False::0::0|ShipDate::False::0::0'',
          ''OrderID::False::0::0|ShipDate::False::0::0'',
          ''OrderID::False::0::0|ShipDate::False::0::0'']
   \<and> View_Type_Attributes (generate_view_type_attributes [] attributes_example ! 1)
       = serialize (map Field_C (group_rows attributes_example (attributes_example ! 1)))"
proof -
  have h: "1 < length attributes_example" by (simp add: attributes_example_def)
  have e: "map View_Type_Attributes (generate_view_type_attributes [] attributes_example)
       = [''OrderID::False::0::0|ShipDate::False::0::0'',
          ''OrderID::False::0::0|ShipDate::False::0::0'',
          ''OrderID::False::0::0|ShipDate::False::0::0'']"
    by code_simp
  have "generate_view_type_attributes [] attributes_example ! 1
       = (attributes_example ! 1)\<lparr>View_Type_Attributes :=
            serialize (map Field_C (group_rows attributes_example (attributes_example ! 1)))\<rparr>"
    using view_type_attributes_serialized [OF h, of "[]"] by blast
  then have "View_Type_Attributes (generate_view_type_attributes [] attributes_example ! 1)
       = serialize (map Field_C (group_rows attributes_example (attributes_example ! 1)))"
    by simp
  then show ?thesis using h e by blast
qed

text \<open>
  C7 as stated only removes spaces from a name.  A field that is a tab followed by A
  is serialized as \<^verbatim>\<open>A::False::0::0\<close>: the tab is trimmed too.
\<close>

theorem clean_field_strips_tab:
  "View_Type_Attributes (generate_view_type_attributes [] tab_example ! 0) = ''A::False::0::0''
   \<and> serialize_stated (map Field_C (group_rows tab_example (tab_example ! 0)))
       = [CHR 0x09] @ ''A::False::0::0''
   \<and> View_Type_Attributes (generate_view_type_attributes [] tab_example ! 0)
       \<noteq> serialize_stated (map Field_C (group_rows tab_example (tab_example ! 0)))"
  by code_simp

section \<open>Panel layout\<close>

lemma subselect_select:
  "subselect q (select p df) = select (\<lambda>r. p r \<and> q r) df"
  by (auto simp: subselect_def select_def intro: filter_cong)

lemma panel_size_eq:
  "panel_size (select (\<lambda>r. Module r = m \<and> Dashboard r = d) df)
     = (panel_width (panel_rows df m d), panel_height (panel_rows df m d))"
proof -
  let ?sel = "select (\<lambda>r. Module r = m \<and> Dashboard r = d) df"
  have snd: "map snd ?sel = panel_rows df m d"
    by (simp add: map_snd_select panel_rows_def)
  have ot: "map (Object_Type \<circ> snd) ?sel = map Object_Type (panel_rows df m d)"
    using snd by (metis map_map)
  have vt: "map (View_Type \<circ> snd) ?sel = map View_Type (panel_rows df m d)"
    using snd by (metis map_map)
  have len: "length ?sel = length (panel_rows df m d)"
    using snd by (metis length_map)
  show ?thesis
    by (simp add: panel_size_def Let_def ot vt len panel_width_def panel_height_def)
qed

lemma place_panel_eq:
  "place_panel (select (\<lambda>r. Module r = m) df0) d (df, cursor)
     = (write_rows (map fst (select (\<lambda>r. Module r = m \<and> Dashboard r = d) df0))
          (set_geometry (fst cursor, fst (snd cursor),
             panel_width (panel_rows df0 m d), panel_height (panel_rows df0 m d))) df,
        advance cursor (panel_width (panel_rows df0 m d), panel_height (panel_rows df0 m d)))"
proof -
  have f: "(\<lambda>r. r\<lparr>PosX := x, PosY := y, Width := w, Height := h\<rparr>) = set_geometry (x, y, w, h)"
    for x y w h
    by (rule ext) (simp add: set_geometry_def)
  obtain x y mh where c: "cursor = (x, y, mh)" by (cases cursor) auto
  show ?thesis
    by (simp add: place_panel_def c subselect_select panel_size_eq Let_def advance_def f)
qed

lemma geometry_from_head:
  "geometry_from df m cursor (d # ds) d
     = (fst cursor, fst (snd cursor), panel_width (panel_rows df m d), panel_height (panel_rows df m d))"
  by (cases cursor) (simp add: geometry_from_def cursor_from_def position_of_def)

lemma geometry_from_tail:
  "d \<noteq> d' \<Longrightarrow>
   geometry_from df m cursor (d' # ds) d
     = geometry_from df m
         (advance cursor (panel_width (panel_rows df m d'), panel_height (panel_rows df m d'))) ds d"
  by (simp add: geometry_from_def cursor_from_def position_of_def)

lemma panel_geometry_from:
  "panel_geometry df m d = geometry_from df m (0, 0, 0) (module_dashboards df m) d"
  by (simp add: panel_geometry_def geometry_from_def cursor_before_def panel_sizes_def)

lemma set_geometry_keys [simp]:
  "Module (set_geometry g r) = Module r"
  "Dashboard (set_geometry g r) = Dashboard r"
  "Object_Type (set_geometry g r) = Object_Type r"
  "Object_Name (set_geometry g r) = Object_Name r"
  "View_Type (set_geometry g r) = View_Type r"
  "Element_Id (set_geometry g r) = Element_Id r"
  "Field_C (set_geometry g r) = Field_C r"
  "PosX_1 (set_geometry g r) = PosX_1 r"
  "PosY_1 (set_geometry g r) = PosY_1 r"
  "Width_1 (set_geometry g r) = Width_1 r"
  "Height_1 (set_geometry g r) = Height_1 r"
  "View_Type_Attributes (set_geometry g r) = View_Type_Attributes r"
  by (cases g; simp add: set_geometry_def)+

lemma geometry_set_geometry [simp]: "geometry (set_geometry g r) = g"
  by (cases g) (simp add: set_geometry_def geometry_def)

lemma fold_place_panel_nth:
  "distinct ds \<Longrightarrow> j < length df \<Longrightarrow> length df = length df0 \<Longrightarrow>
   fst (fold (place_panel (select (\<lambda>r. Module r = m) df0)) ds (df, cursor)) ! j
     = (if Module (df0 ! j) = m \<and> Dashboard (df0 ! j) \<in> set ds
        then set_geometry (geometry_from df0 m cursor ds (Dashboard (df0 ! j))) (df ! j)
        else df ! j)"
proof (induction ds arbitrary: df cursor)
  case Nil
  then show ?case by simp
next
  case (Cons d ds)
  let ?labels = "map fst (select (\<lambda>r. Module r = m \<and> Dashboard r = d) df0)"
  let ?size = "(panel_width (panel_rows df0 m d), panel_height (panel_rows df0 m d))"
  let ?g = "(fst cursor, fst (snd cursor), panel_width (panel_rows df0 m d),
             panel_height (panel_rows df0 m d))"
  let ?df = "write_rows ?labels (set_geometry ?g) df"
  have step: "fold (place_panel (select (\<lambda>r. Module r = m) df0)) (d # ds) (df, cursor)
      = fold (place_panel (select (\<lambda>r. Module r = m) df0)) ds (?df, advance cursor ?size)"
    by (simp add: place_panel_eq)
  have len: "j < length ?df" "length ?df = length df0"
    using Cons.prems by (simp_all add: length_write_rows)
  have mem: "j \<in> set ?labels \<longleftrightarrow> Module (df0 ! j) = m \<and> Dashboard (df0 ! j) = d"
    using Cons.prems by (simp only: set_select_labels) simp
  have at: "?df ! j = (if j \<in> set ?labels then set_geometry ?g (df ! j) else df ! j)"
    using distinct_select_labels Cons.prems(2) by (rule write_rows_nth)
  have ih: "fst (fold (place_panel (select (\<lambda>r. Module r = m) df0)) ds (?df, advance cursor ?size)) ! j
      = (if Module (df0 ! j) = m \<and> Dashboard (df0 ! j) \<in> set ds
         then set_geometry (geometry_from df0 m (advance cursor ?size) ds (Dashboard (df0 ! j))) (?df ! j)
         else ?df ! j)"
    using Cons.prems len by (intro Cons.IH) auto
  show ?case
  proof (cases "Module (df0 ! j) = m \<and> Dashboard (df0 ! j) = d")
    case True
    then have "Dashboard (df0 ! j) \<notin> set ds" using Cons.prems by auto
    then show ?thesis
      using True step ih at mem by (simp add: geometry_from_head)
  next
    case False
    then have "j \<notin> set ?labels" using mem by blast
    then have same: "?df ! j = df ! j" using at by (simp only: if_False)
    show ?thesis
    proof (cases "Module (df0 ! j) = m \<and> Dashboard (df0 ! j) \<in> set ds")
      case True
      then have "Dashboard (df0 ! j) \<noteq> d" using False by auto
      then show ?thesis
        using True step ih same by (simp add: geometry_from_tail)
    next
      case no: False
      then show ?thesis using False step ih same by auto
    qed
  qed
qed

lemma length_fold_place_panel:
  "length (fst (fold (place_panel (select p df0)) ds (df, cursor))) = length df"
proof (induction ds arbitrary: df cursor)
  case Nil
  then show ?case by simp
next
  case (Cons d ds)
  obtain df' cursor' where st: "place_panel (select p df0) d (df, cursor) = (df', cursor')"
    by (cases "place_panel (select p df0) d (df, cursor)") auto
  have "length df' = length df"
    using st by (cases cursor)
      (auto simp: place_panel_def Let_def length_write_rows split: prod.splits if_splits)
  then show ?case using Cons.IH [of df' cursor'] st by simp
qed

lemma module_dashboards_eq:
  "unique (map (Dashboard \<circ> snd) (select (\<lambda>r. Module r = m) df)) = module_dashboards df m"
proof -
  have "map (Dashboard \<circ> snd) (select (\<lambda>r. Module r = m) df)
      = map Dashboard (map snd (select (\<lambda>r. Module r = m) df))"
    by simp
  then show ?thesis by (simp only: map_snd_select module_dashboards_def)
qed

lemma length_layout_module: "length (layout_module m df) = length df"
  by (simp add: layout_module_def Let_def length_fold_place_panel)

lemma layout_module_nth:
  assumes "j < length df"
  shows "layout_module m df ! j
     = (if Module (df ! j) = m
        then set_geometry (panel_geometry df m (Dashboard (df ! j))) (df ! j)
        else df ! j)"
proof -
  have mem: "Module (df ! j) = m \<Longrightarrow> Dashboard (df ! j) \<in> set (module_dashboards df m)"
    using assms by (auto simp: module_dashboards_def unique_set intro!: image_eqI [of _ _ "df ! j"])
  have "layout_module m df ! j
      = fst (fold (place_panel (select (\<lambda>r. Module r = m) df)) (module_dashboards df m)
               (df, 0, 0, 0)) ! j"
    by (simp add: layout_module_def Let_def module_dashboards_eq)
  also have "\<dots> = (if Module (df ! j) = m \<and> Dashboard (df ! j) \<in> set (module_dashboards df m)
        then set_geometry (geometry_from df m (0, 0, 0) (module_dashboards df m) (Dashboard (df ! j)))
               (df ! j)
        else df ! j)"
    using assms by (intro fold_place_panel_nth) (simp_all add: module_dashboards_def unique_distinct)
  finally show ?thesis using mem by (auto simp: panel_geometry_from)
qed

lemma key_cols_filter:
  assumes "map key_cols df' = map key_cols df"
  shows "map key_cols (filter (\<lambda>r. P (key_cols r)) df') = map key_cols (filter (\<lambda>r. P (key_cols r)) df)"
proof -
  have "map key_cols (filter (P \<circ> key_cols) xs) = filter P (map key_cols xs)" for xs :: "row list"
    by (simp add: filter_map)
  then show ?thesis using assms by (simp add: comp_def)
qed

lemma panel_rows_cong:
  assumes "map key_cols df' = map key_cols df"
  shows "map key_cols (panel_rows df' m d) = map key_cols (panel_rows df m d)"
  using key_cols_filter [OF assms, of "\<lambda>k. fst k = m \<and> fst (snd k) = d"]
  by (simp add: panel_rows_def key_cols_def)

lemma panel_size_cong:
  assumes "map key_cols g' = map key_cols g"
  shows "panel_width g' = panel_width g" and "panel_height g' = panel_height g"
proof -
  have ot: "map Object_Type xs = map (\<lambda>k. fst (snd (snd k))) (map key_cols xs)" for xs :: "row list"
    by (simp add: key_cols_def)
  have vt: "map View_Type xs = map (\<lambda>k. snd (snd (snd k))) (map key_cols xs)" for xs :: "row list"
    by (simp add: key_cols_def)
  have len: "length g' = length g" using assms by (rule map_eq_imp_length_eq)
  show "panel_width g' = panel_width g"
    unfolding panel_width_def by (simp only: ot assms)
  show "panel_height g' = panel_height g"
    unfolding panel_height_def by (simp only: vt assms len)
qed

lemma module_dashboards_cong:
  assumes "map key_cols df' = map key_cols df"
  shows "module_dashboards df' m = module_dashboards df m"
proof -
  have d: "map Dashboard xs = map (\<lambda>k. fst (snd k)) (map key_cols xs)" for xs :: "row list"
    by (simp add: key_cols_def)
  have "map key_cols (filter (\<lambda>r. Module r = m) df') = map key_cols (filter (\<lambda>r. Module r = m) df)"
    using key_cols_filter [OF assms, of "\<lambda>k. fst k = m"] by (simp add: key_cols_def)
  then show ?thesis unfolding module_dashboards_def by (simp only: d)
qed

lemma panel_geometry_cong:
  assumes "map key_cols df' = map key_cols df"
  shows "panel_geometry df' m d = panel_geometry df m d"
  unfolding panel_geometry_def panel_sizes_def
  by (simp only: module_dashboards_cong [OF assms]
      panel_size_cong [OF panel_rows_cong [OF assms]])

lemma key_cols_set_geometry [simp]: "key_cols (set_geometry g r) = key_cols r"
  by (simp add: key_cols_def)

lemma layout_module_key_cols: "map key_cols (layout_module m df) = map key_cols df"
  by (rule nth_equalityI) (simp_all add: length_layout_module layout_module_nth)

lemma fold_layout_module_nth:
  "distinct ms \<Longrightarrow> j < length df \<Longrightarrow>
   fold layout_module ms df ! j = (if Module (df ! j) \<in> set ms then paneled df j else df ! j)"
proof (induction ms arbitrary: df)
  case Nil
  then show ?case by simp
next
  case (Cons m ms)
  let ?df = "layout_module m df"
  have j: "j < length ?df" using Cons.prems by (simp add: length_layout_module)
  have at: "?df ! j = (if Module (df ! j) = m then paneled df j else df ! j)"
    using Cons.prems by (simp add: layout_module_nth paneled_def)
  have keys: "Module (?df ! j) = Module (df ! j)" "Dashboard (?df ! j) = Dashboard (df ! j)"
    using at by (simp_all add: paneled_def)
  have ih: "fold layout_module ms ?df ! j
      = (if Module (?df ! j) \<in> set ms then paneled ?df j else ?df ! j)"
    using Cons.prems j by (intro Cons.IH) auto
  show ?case
  proof (cases "Module (df ! j) = m")
    case True
    then have "Module (df ! j) \<notin> set ms" using Cons.prems by auto
    then show ?thesis using ih at keys True by simp
  next
    case False
    then have same: "?df ! j = df ! j" using at by simp
    have "paneled ?df j = paneled df j"
      using same panel_geometry_cong [OF layout_module_key_cols] by (simp add: paneled_def)
    then show ?thesis using ih same False by simp
  qed
qed

lemma length_fold_layout_module: "length (fold layout_module ms df) = length df"
  by (induction ms arbitrary: df) (simp_all add: length_layout_module)

lemma position_dashboard_panels_nth:
  "j < length df \<Longrightarrow>
   position_dashboard_panels_by_module (unique (map Module df)) df ! j = paneled df j"
  using fold_layout_module_nth [OF unique_distinct, of j df "map Module df"]
  by (simp add: position_dashboard_panels_by_module_def unique_set)

lemma length_position_dashboard_panels:
  "length (position_dashboard_panels_by_module ms df) = length df"
  by (simp add: position_dashboard_panels_by_module_def length_fold_layout_module)

lemma cursor_before_0: "cursor_before sizes 0 = (0, 0, 0)"
  by (simp add: cursor_before_def cursor_from_def)

lemma cursor_before_Suc:
  "k < length sizes \<Longrightarrow> cursor_before sizes (Suc k) = advance (cursor_before sizes k) (sizes ! k)"
  by (simp add: cursor_before_def cursor_from_def take_Suc_conv_app_nth)

lemma panel_height_ceiling:
  "panel_height grp =
     14 + (if length grp > 8 then 2 * \<lceil>(real (length grp) - 8) / 2\<rceil> else 0)
        + (if ''Report Summary'' \<in> set (map View_Type grp) then 4 else 0)"
proof (cases "length grp > 8")
  case True
  then have "real (length grp - 8) = real (length grp) - 8" by simp
  then have "int (ceil_half (length grp - 8)) = \<lceil>(real (length grp) - 8) / 2\<rceil>"
    using ceil_half_ceiling [of "length grp - 8"] by simp
  then show ?thesis using True by (simp add: panel_height_def)
next
  case False
  then show ?thesis by (simp add: panel_height_def)
qed

lemma advance_eq:
  "advance (x, y, mh) (w, h)
     = (if x + w \<ge> 18 then (0, y + (max mh h + 5), 0) else (x + w, y, max mh h))"
  by (simp add: advance_def)

text \<open>
  C1.  After the panel pass every row has the geometry of the panel of its module and
  dashboard.  The width of the panel is 6, plus 3 if a row of the group has the object
  type Report; its height is 14, plus \<open>2 * ceil ((n - 8) / 2)\<close> for a group of \<open>n > 8\<close>
  rows, plus 4 if a row has the view type Report Summary, whose cell value is
  \<^verbatim>\<open>Report Summary\<close>.  Its position is the cursor
  of its module before it: the dashboards of the module are taken in first-seen order,
  the cursor starts at (0, 0), each placement moves it right by the width of the panel,
  and at 18 or beyond it wraps to x = 0, with y increased by the height of the tallest
  panel of the band plus 5 and the band height reset.
\<close>

theorem panel_layout:
  assumes "j < length df"
  shows "geometry (position_dashboard_panels_by_module (unique (map Module df)) df ! j)
       = panel_geometry df (Module (df ! j)) (Dashboard (df ! j))
    \<and> panel_geometry df m d
       = (fst (cursor_before (panel_sizes df m) (position_of d (module_dashboards df m))),
          fst (snd (cursor_before (panel_sizes df m) (position_of d (module_dashboards df m)))),
          panel_width (panel_rows df m d), panel_height (panel_rows df m d))
    \<and> panel_width grp = 6 + (if ''Report'' \<in> set (map Object_Type grp) then 3 else 0)
    \<and> panel_height grp
       = 14 + (if length grp > 8 then 2 * \<lceil>(real (length grp) - 8) / 2\<rceil> else 0)
            + (if ''Report Summary'' \<in> set (map View_Type grp) then 4 else 0)
    \<and> cursor_before sizes 0 = (0, 0, 0)
    \<and> cursor_before (sizes @ [(w, h)] @ rest) (Suc (length sizes))
       = advance (cursor_before (sizes @ [(w, h)] @ rest) (length sizes)) (w, h)
    \<and> advance (x, y, mh) (w, h)
       = (if x + w \<ge> 18 then (0, y + (max mh h + 5), 0) else (x + w, y, max mh h))"
proof -
  have a: "geometry (position_dashboard_panels_by_module (unique (map Module df)) df ! j)
       = panel_geometry df (Module (df ! j)) (Dashboard (df ! j))"
    using position_dashboard_panels_nth [OF assms] by (simp add: paneled_def)
  have b: "panel_geometry df m d
       = (fst (cursor_before (panel_sizes df m) (position_of d (module_dashboards df m))),
          fst (snd (cursor_before (panel_sizes df m) (position_of d (module_dashboards df m)))),
          panel_width (panel_rows df m d), panel_height (panel_rows df m d))"
    by (simp add: panel_geometry_def split: prod.splits)
  have c: "cursor_before (sizes @ [(w, h)] @ rest) (Suc (length sizes))
       = advance (cursor_before (sizes @ [(w, h)] @ rest) (length sizes)) (w, h)"
    using cursor_before_Suc [of "length sizes" "sizes @ [(w, h)] @ rest"] by simp
  have w: "panel_width grp = 6 + (if ''Report'' \<in> set (map Object_Type grp) then 3 else 0)"
    by (rule panel_width_def)
  have h: "panel_height grp
       = 14 + (if length grp > 8 then 2 * \<lceil>(real (length grp) - 8) / 2\<rceil> else 0)
            + (if ''Report Summary'' \<in> set (map View_Type grp) then 4 else 0)"
    by (rule panel_height_ceiling)
  have z: "cursor_before sizes 0 = (0, 0, 0)" by (rule cursor_before_0)
  have e: "advance (x, y, mh) (w, h)
       = (if x + w \<ge> 18 then (0, y + (max mh h + 5), 0) else (x + w, y, max mh h))"
    by (rule advance_eq)
  show ?thesis by (intro conjI) (rule a b w h z c e)+
qed

theorem panel_layout_witness:
  "3 < length wrap_example
   \<and> map geometry (position_dashboard_panels_by_module (unique (map Module wrap_example)) wrap_example)
       = [(0, 0, 6, 14), (6, 0, 6, 14), (12, 0, 6, 14), (0, 19, 6, 14), (6, 19, 6, 14), (12, 19, 6, 14)]
   \<and> panel_geometry wrap_example ''Sales'' ''D'' = (0, 19, 6, 14)
   \<and> geometry (position_dashboard_panels_by_module (unique (map Module wrap_example)) wrap_example ! 3)
       = panel_geometry wrap_example (Module (wrap_example ! 3)) (Dashboard (wrap_example ! 3))
   \<and> remdups_adj (map geometry
         (position_dashboard_panels_by_module (unique (map Module sized_example)) sized_example))
       = [(0, 0, 9, 18), (9, 0, 6, 18), (15, 0, 6, 14), (0, 23, 6, 14), (0, 0, 6, 14)]"
proof -
  have s: "remdups_adj (map geometry
         (position_dashboard_panels_by_module (unique (map Module sized_example)) sized_example))
       = [(0, 0, 9, 18), (9, 0, 6, 18), (15, 0, 6, 14), (0, 23, 6, 14), (0, 0, 6, 14)]"
    by code_simp
  have h: "3 < length wrap_example" by (simp add: wrap_example_def)
  have e: "map geometry (position_dashboard_panels_by_module (unique (map Module wrap_example)) wrap_example)
       = [(0, 0, 6, 14), (6, 0, 6, 14), (12, 0, 6, 14), (0, 19, 6, 14), (6, 19, 6, 14), (12, 19, 6, 14)]"
    by code_simp
  have g: "panel_geometry wrap_example ''Sales'' ''D'' = (0, 19, 6, 14)" by code_simp
  have "geometry (position_dashboard_panels_by_module (unique (map Module wrap_example)) wrap_example ! 3)
       = panel_geometry wrap_example (Module (wrap_example ! 3)) (Dashboard (wrap_example ! 3))"
    using panel_layout [OF h] by blast
  then show ?thesis using h e g s by blast
qed

section \<open>The passes together\<close>

lemma place_field_only_fields:
  "place_field cc p r
     = r\<lparr>PosX_1 := PosX_1 (place_field cc p r), PosY_1 := PosY_1 (place_field cc p r),
         Width_1 := Width_1 (place_field cc p r), Height_1 := Height_1 (place_field cc p r)\<rparr>"
  by (cases "Field_C r") (simp_all add: place_field_def Let_def split: prod.splits)

lemma geometry_place_field [simp]: "geometry (place_field cc p r) = geometry r"
  by (simp add: geometry_def)

lemma geometry_placed: "geometry (placed df j) = geometry (df ! j)"
  by (simp add: placed_def Let_def)

lemma place_field_non_string:
  "Field_C r = Null \<or> Field_C r = NonStr s \<Longrightarrow>
   Width_1 (place_field cc p r) = Width_1 r \<and> Height_1 (place_field cc p r) = Height_1 r"
  by (auto simp: place_field_def Let_def)

lemma length_initialize: "length (initialize_dataframe_columns cols df) = length df"
  by (simp add: initialize_dataframe_columns_def)

lemma initialize_key_cols:
  "map key_cols (initialize_dataframe_columns cols df) = map key_cols df"
  by (simp add: initialize_dataframe_columns_def key_cols_def)

lemma initialize_modules:
  "map Module (initialize_dataframe_columns cols df) = map Module df"
  by (simp add: initialize_dataframe_columns_def)

lemma initialize_nth_keys:
  assumes "j < length df"
  shows "Module (initialize_dataframe_columns cols df ! j) = Module (df ! j)"
    and "Dashboard (initialize_dataframe_columns cols df ! j) = Dashboard (df ! j)"
    and "Field_C (initialize_dataframe_columns cols df ! j) = Field_C (df ! j)"
    and "Width_1 (initialize_dataframe_columns cols df ! j)
           = (if ''Width.1'' \<in> set cols then Width_1 (df ! j) else 50)"
    and "Height_1 (initialize_dataframe_columns cols df ! j)
           = (if ''Height.1'' \<in> set cols then Height_1 (df ! j) else 50)"
  using assms by (simp_all add: initialize_dataframe_columns_def)

lemma apply_smart_layout_eq:
  "apply_smart_layout cols df =
     generate_view_type_attributes cols
       (position_dashboard_fields
          (position_dashboard_panels_by_module
             (unique (map Module (initialize_dataframe_columns cols df)))
             (initialize_dataframe_columns cols df)))"
  by (simp add: apply_smart_layout_def Let_def)

lemma geometry_update_attributes [simp]:
  "geometry (r\<lparr>View_Type_Attributes := v\<rparr>) = geometry r"
  by (simp add: geometry_def)

text \<open>
  C9.  After the panel pass two rows with the same module and dashboard have the same
  panel geometry, that of their panel.  The field pass changes only the four field
  geometry cells of a row and the attribute pass only its attribute string, so at the
  end of \<^verbatim>\<open>apply_smart_layout\<close> the two rows still share the geometry of their panel.
\<close>

theorem panel_geometry_shared:
  assumes "i < length df" and "j < length df"
    and "Module (df ! i) = Module (df ! j)" and "Dashboard (df ! i) = Dashboard (df ! j)"
  shows "geometry (position_dashboard_panels_by_module (unique (map Module df)) df ! i)
       = panel_geometry df (Module (df ! i)) (Dashboard (df ! i))
    \<and> geometry (position_dashboard_panels_by_module (unique (map Module df)) df ! i)
       = geometry (position_dashboard_panels_by_module (unique (map Module df)) df ! j)
    \<and> position_dashboard_fields df ! i
       = (df ! i)\<lparr>PosX_1 := PosX_1 (position_dashboard_fields df ! i),
                  PosY_1 := PosY_1 (position_dashboard_fields df ! i),
                  Width_1 := Width_1 (position_dashboard_fields df ! i),
                  Height_1 := Height_1 (position_dashboard_fields df ! i)\<rparr>
    \<and> generate_view_type_attributes cols df ! i
       = (df ! i)\<lparr>View_Type_Attributes :=
                    View_Type_Attributes (generate_view_type_attributes cols df ! i)\<rparr>
    \<and> geometry (apply_smart_layout cols df ! i)
       = panel_geometry df (Module (df ! i)) (Dashboard (df ! i))
    \<and> geometry (apply_smart_layout cols df ! i) = geometry (apply_smart_layout cols df ! j)"
proof -
  let ?P = "\<lambda>x. position_dashboard_panels_by_module (unique (map Module x)) x"
  have pi: "geometry (?P df ! i) = panel_geometry df (Module (df ! i)) (Dashboard (df ! i))"
    using position_dashboard_panels_nth [OF assms(1)] by (simp add: paneled_def)
  have pj: "geometry (?P df ! j) = panel_geometry df (Module (df ! j)) (Dashboard (df ! j))"
    using position_dashboard_panels_nth [OF assms(2)] by (simp add: paneled_def)
  have fi: "position_dashboard_fields df ! i
       = (df ! i)\<lparr>PosX_1 := PosX_1 (position_dashboard_fields df ! i),
                  PosY_1 := PosY_1 (position_dashboard_fields df ! i),
                  Width_1 := Width_1 (position_dashboard_fields df ! i),
                  Height_1 := Height_1 (position_dashboard_fields df ! i)\<rparr>"
    using position_dashboard_fields_nth [OF assms(1)] place_field_only_fields
    by (simp add: placed_def Let_def)
  have gi: "generate_view_type_attributes cols df ! i
       = (df ! i)\<lparr>View_Type_Attributes :=
                    View_Type_Attributes (generate_view_type_attributes cols df ! i)\<rparr>"
    using generate_view_type_attributes_nth [OF assms(1), of cols] by simp
  let ?df0 = "initialize_dataframe_columns cols df"
  have final: "geometry (apply_smart_layout cols df ! k)
       = panel_geometry df (Module (df ! k)) (Dashboard (df ! k))" if k: "k < length df" for k
  proof -
    have k0: "k < length ?df0" using k by (simp add: length_initialize)
    have kp: "k < length (?P ?df0)" using k0 by (simp add: length_position_dashboard_panels)
    have kf: "k < length (position_dashboard_fields (?P ?df0))"
      using kp by (simp add: length_position_dashboard_fields)
    have "geometry (apply_smart_layout cols df ! k)
        = geometry (position_dashboard_fields (?P ?df0) ! k)"
      using generate_view_type_attributes_nth [OF kf, of cols] by (simp add: apply_smart_layout_eq)
    also have "\<dots> = geometry (?P ?df0 ! k)"
      using position_dashboard_fields_nth [OF kp] by (simp add: geometry_placed)
    also have "\<dots> = panel_geometry ?df0 (Module (?df0 ! k)) (Dashboard (?df0 ! k))"
      using position_dashboard_panels_nth [OF k0] by (simp add: paneled_def)
    also have "\<dots> = panel_geometry df (Module (df ! k)) (Dashboard (df ! k))"
      using panel_geometry_cong [OF initialize_key_cols] initialize_nth_keys(1,2) [OF k] by simp
    finally show ?thesis .
  qed
  have ai: "geometry (apply_smart_layout cols df ! i)
       = panel_geometry df (Module (df ! i)) (Dashboard (df ! i))"
    using final [OF assms(1)] .
  have aj: "geometry (apply_smart_layout cols df ! i) = geometry (apply_smart_layout cols df ! j)"
    using final [OF assms(1)] final [OF assms(2)] assms(3,4) by simp
  have pij: "geometry (?P df ! i) = geometry (?P df ! j)"
    using pi pj assms(3,4) by simp
  show ?thesis by (intro conjI) (rule pi pij fi gi ai aj)+
qed

theorem panel_geometry_shared_witness:
  "0 < length shared_example \<and> 2 < length shared_example
   \<and> Module (shared_example ! 0) = Module (shared_example ! 2)
   \<and> Dashboard (shared_example ! 0) = Dashboard (shared_example ! 2)
   \<and> geometry (apply_smart_layout [] shared_example ! 0)
       = geometry (apply_smart_layout [] shared_example ! 2)
   \<and> map geometry (apply_smart_layout [] shared_example)
       = [(0, 0, 6, 14), (6, 0, 6, 14), (0, 0, 6, 14), (0, 0, 6, 14)]"
proof -
  have h1: "0 < length shared_example" by (simp add: shared_example_def)
  have h2: "2 < length shared_example" by (simp add: shared_example_def)
  have h3: "Module (shared_example ! 0) = Module (shared_example ! 2)"
    by (simp add: shared_example_def field_row_def)
  have h4: "Dashboard (shared_example ! 0) = Dashboard (shared_example ! 2)"
    by (simp add: shared_example_def field_row_def)
  have e: "map geometry (apply_smart_layout [] shared_example)
       = [(0, 0, 6, 14), (6, 0, 6, 14), (0, 0, 6, 14), (0, 0, 6, 14)]"
    by code_simp
  have "geometry (apply_smart_layout [] shared_example ! 0)
       = geometry (apply_smart_layout [] shared_example ! 2)"
    using panel_geometry_shared [OF h1 h2 h3 h4, of "[]"] by blast
  then show ?thesis using h1 h2 h3 h4 e by blast
qed

text \<open>
  C10, as amended.  A row whose field is not a string has the score 100, which no score
  exceeds and every string field stays below, so it sorts after the string fields of
  its group.  The field pass returns for every frame and writes no size for such a
  row: its width and height stay as they were, which is the default 50 by 50 when
  \<^verbatim>\<open>apply_smart_layout\<close> created the size columns and the cells of the frame when it
  came with them.
\<close>

theorem non_string_field_layout:
  assumes "j < length df" and "Field_C (df ! j) = Null \<or> Field_C (df ! j) = NonStr s"
  shows "advanced_field_priority (Field_C (df ! j)) = 100
    \<and> advanced_field_priority c \<le> 100
    \<and> advanced_field_priority (Str f) < 100
    \<and> length (position_dashboard_fields df) = length df
    \<and> Width_1 (position_dashboard_fields df ! j) = Width_1 (df ! j)
    \<and> Height_1 (position_dashboard_fields df ! j) = Height_1 (df ! j)
    \<and> length (apply_smart_layout cols df) = length df
    \<and> Width_1 (apply_smart_layout cols df ! j)
        = (if ''Width.1'' \<in> set cols then Width_1 (df ! j) else 50)
    \<and> Height_1 (apply_smart_layout cols df ! j)
        = (if ''Height.1'' \<in> set cols then Height_1 (df ! j) else 50)"
proof -
  let ?P = "\<lambda>x. position_dashboard_panels_by_module (unique (map Module x)) x"
  let ?df0 = "initialize_dataframe_columns cols df"
  have a: "advanced_field_priority (Field_C (df ! j)) = 100" using assms(2) by auto
  have b: "advanced_field_priority c \<le> 100" by (rule advanced_field_priority_le)
  have b': "advanced_field_priority (Str f) < 100" by (simp add: priority_map_def)
  have l: "length (position_dashboard_fields df) = length df"
    by (rule length_position_dashboard_fields)
  have keep: "Width_1 (position_dashboard_fields x ! j) = Width_1 (x ! j)
      \<and> Height_1 (position_dashboard_fields x ! j) = Height_1 (x ! j)"
    if "j < length x" and "Field_C (x ! j) = Null \<or> Field_C (x ! j) = NonStr s" for x
    using position_dashboard_fields_nth [OF that(1)] place_field_non_string [OF that(2)]
    by (simp add: placed_def Let_def)
  have w: "Width_1 (position_dashboard_fields df ! j) = Width_1 (df ! j)"
    and h: "Height_1 (position_dashboard_fields df ! j) = Height_1 (df ! j)"
    using keep [OF assms] by simp_all
  have j0: "j < length ?df0" using assms(1) by (simp add: length_initialize)
  have jp: "j < length (?P ?df0)" using j0 by (simp add: length_position_dashboard_panels)
  have jf: "j < length (position_dashboard_fields (?P ?df0))"
    using jp by (simp add: length_position_dashboard_fields)
  have la: "length (apply_smart_layout cols df) = length df"
    by (simp add: apply_smart_layout_eq length_generate_view_type_attributes
        length_position_dashboard_fields length_position_dashboard_panels length_initialize)
  have pf: "Field_C (?P ?df0 ! j) = Field_C (df ! j)"
    and pw: "Width_1 (?P ?df0 ! j) = Width_1 (?df0 ! j)"
    and ph: "Height_1 (?P ?df0 ! j) = Height_1 (?df0 ! j)"
    using position_dashboard_panels_nth [OF j0] initialize_nth_keys(3) [OF assms(1)]
    by (simp_all add: paneled_def)
  have fld: "Field_C (?P ?df0 ! j) = Null \<or> Field_C (?P ?df0 ! j) = NonStr s"
    using pf assms(2) by simp
  have g: "Width_1 (apply_smart_layout cols df ! j)
        = Width_1 (position_dashboard_fields (?P ?df0) ! j)"
      "Height_1 (apply_smart_layout cols df ! j)
        = Height_1 (position_dashboard_fields (?P ?df0) ! j)"
    using generate_view_type_attributes_nth [OF jf, of cols] by (simp_all add: apply_smart_layout_eq)
  have aw: "Width_1 (apply_smart_layout cols df ! j)
        = (if ''Width.1'' \<in> set cols then Width_1 (df ! j) else 50)"
    using g(1) keep [OF jp fld] pw initialize_nth_keys(4) [OF assms(1)] by simp
  have ah: "Height_1 (apply_smart_layout cols df ! j)
        = (if ''Height.1'' \<in> set cols then Height_1 (df ! j) else 50)"
    using g(2) keep [OF jp fld] ph initialize_nth_keys(5) [OF assms(1)] by simp
  show ?thesis by (intro conjI) (rule a b b' l w h la aw ah)+
qed

theorem non_string_field_layout_witness:
  "2 < length shared_example
   \<and> (Field_C (shared_example ! 2) = Null \<or> Field_C (shared_example ! 2) = NonStr [])
   \<and> advanced_field_priority (Field_C (shared_example ! 2)) = 100
   \<and> Width_1 (apply_smart_layout [] shared_example ! 2) = 50
   \<and> Height_1 (apply_smart_layout [] shared_example ! 2) = 50
   \<and> map (\<lambda>r. (PosX_1 r, PosY_1 r)) (apply_smart_layout [] shared_example)
       = [(3, 5), (3, 5), (3, 60), (63, 5)]"
proof -
  have h1: "2 < length shared_example" by (simp add: shared_example_def)
  have h2: "Field_C (shared_example ! 2) = Null \<or> Field_C (shared_example ! 2) = NonStr []"
    by (simp add: shared_example_def field_row_def)
  have e: "map (\<lambda>r. (PosX_1 r, PosY_1 r)) (apply_smart_layout [] shared_example)
       = [(3, 5), (3, 5), (3, 60), (63, 5)]"
    by code_simp
  have "advanced_field_priority (Field_C (shared_example ! 2)) = 100
    \<and> Width_1 (apply_smart_layout [] shared_example ! 2) = 50
    \<and> Height_1 (apply_smart_layout [] shared_example ! 2) = 50"
    using non_string_field_layout [OF h1 h2, of _ _ "[]"] by simp
  then show ?thesis using h1 h2 e by blast
qed

text \<open>
  C10 as stated gives a row whose field is not a string the default size.  A frame
  that comes with the columns \<^verbatim>\<open>Width.1\<close> and \<^verbatim>\<open>Height.1\<close> and a null field sized 999
  by 7 leaves the layout with that row still 999 by 7, which is neither the 50 by 50
  of the column defaults nor the 50 by 74 that a string field starts from.
\<close>

theorem non_string_field_keeps_size:
  "Field_C (presized_example ! 0) = Null
   \<and> Width_1 (position_dashboard_fields presized_example ! 0) = 999
   \<and> Height_1 (position_dashboard_fields presized_example ! 0) = 7
   \<and> Width_1 (apply_smart_layout [''Width.1'', ''Height.1''] presized_example ! 0) = 999
   \<and> Height_1 (apply_smart_layout [''Width.1'', ''Height.1''] presized_example ! 0) = 7
   \<and> Width_1 (apply_smart_layout [''Width.1'', ''Height.1''] presized_example ! 0) \<noteq> 50
   \<and> Height_1 (apply_smart_layout [''Width.1'', ''Height.1''] presized_example ! 0) \<noteq> 50
   \<and> Height_1 (apply_smart_layout [''Width.1'', ''Height.1''] presized_example ! 0) \<noteq> 74"
  by code_simp

end
